theory Spec2Isabelle
  imports Main "HOL-Library.Word"
begin

unbundle bit_operations_syntax

section \<open>The upgradeable BPF loader of pkg/sealevel/bpf_loader.go\<close>

subsection \<open>Machine types\<close>

type_synonym byte = "8 word"
type_synonym u32 = "32 word"
type_synonym u64 = "64 word"

text \<open>A solana.PublicKey is a 32-byte array; it is kept as the list of its bytes.\<close>

type_synonym PublicKey = "byte list"

definition PublicKeyLength :: nat where
  "PublicKeyLength = 32"

subsection \<open>Errors\<close>

text \<open>
  The instruction errors the loader returns, and the ones the host's accessors return
  (NotEnoughAccountKeys, MissingAccount, ArithmeticOverflow).
\<close>

datatype InstrErr =
    InstrErrInvalidInstructionData
  | InstrErrInvalidAccountData
  | InstrErrInvalidArgument
  | InstrErrAccountDataTooSmall
  | InstrErrAccountAlreadyInitialized
  | InstrErrImmutable
  | InstrErrIncorrectAuthority
  | InstrErrIncorrectProgramId
  | InstrErrMissingRequiredSignature
  | InstrErrAccountNotExecutable
  | InstrErrExecutableAccountNotRentExempt
  | InstrErrInsufficientFunds
  | InstrErrUnsupportedProgramId
  | InstrErrNotEnoughAccountKeys
  | InstrErrMissingAccount
  | InstrErrArithmeticOverflow

text \<open>
  A Go function either returns an error value or does not return at all: a nil pointer
  dereference, a slice expression out of range and an explicit \<^verbatim>\<open>panic\<close> abort the
  goroutine. Both are branches of the model. ErrForeign is an error value of another
  package that a handler returns as it got it.
\<close>

datatype fault = Err InstrErr | ErrForeign | Panic

subsection \<open>safemath\<close>

text \<open>
  Modelled from the spec: package safemath is not among the sources. Section 3 fixes
  the two operations as saturating addition and subtraction on unsigned 64-bit values.
\<close>

definition SaturatingAddU64 :: "u64 \<Rightarrow> u64 \<Rightarrow> u64" where
  "SaturatingAddU64 a b = (if a + b < a then - 1 else a + b)"

definition SaturatingSubU64 :: "u64 \<Rightarrow> u64 \<Rightarrow> u64" where
  "SaturatingSubU64 a b = (if a < b then 0 else a - b)"

subsection \<open>The binary decoder and encoder\<close>

text \<open>
  The decoder of the external binary package is a cursor over a byte slice; here it is
  the list of the bytes not yet read. Every read fails (None) when fewer bytes remain
  than it needs. Integers are little-endian.
\<close>

definition ReadBytes :: "nat \<Rightarrow> byte list \<Rightarrow> (byte list \<times> byte list) option" where
  "ReadBytes n d = (if length d < n then None else Some (take n d, drop n d))"

definition le_word :: "byte list \<Rightarrow> 'a::len word" where
  "le_word bs = foldr (\<lambda>b acc. ucast b + 256 * acc) bs 0"

definition ReadUint32 :: "byte list \<Rightarrow> (u32 \<times> byte list) option" where
  "ReadUint32 d = (case ReadBytes 4 d of None \<Rightarrow> None | Some (bs, r) \<Rightarrow> Some (le_word bs, r))"

definition ReadUint64 :: "byte list \<Rightarrow> (u64 \<times> byte list) option" where
  "ReadUint64 d = (case ReadBytes 8 d of None \<Rightarrow> None | Some (bs, r) \<Rightarrow> Some (le_word bs, r))"

text \<open>
  ReadBool reads one byte and yields whether it is non-zero. The spec fixes the meaning
  of the flag bytes 0 and 1 only.
\<close>

definition ReadBool :: "byte list \<Rightarrow> (bool \<times> byte list) option" where
  "ReadBool d = (case d of [] \<Rightarrow> None | b # r \<Rightarrow> Some (b \<noteq> 0, r))"

text \<open>
  Modelled from the spec: the length prefix that the external decoder's ReadByteSlice
  reads. Section 6 gives the wire format of Write.bytes as a 64-bit little-endian length
  followed by the raw bytes.
\<close>

definition ReadByteSlice :: "byte list \<Rightarrow> (byte list \<times> byte list) option" where
  "ReadByteSlice d =
     (case ReadUint64 d of None \<Rightarrow> None
      | Some (n, r) \<Rightarrow> ReadBytes (unat n) r)"

text \<open>WriteUint64 with bin.LE appends the eight bytes of the value, lowest first.\<close>

definition WriteUint64 :: "u64 \<Rightarrow> byte list" where
  "WriteUint64 w = map (\<lambda>i. ucast (drop_bit (8 * i) w)) [0..<8]"

subsection \<open>Instruction and state types\<close>

definition UpgradeableLoaderInstrTypeInitializeBuffer :: u32 where
  "UpgradeableLoaderInstrTypeInitializeBuffer = 0"
definition UpgradeableLoaderInstrTypeWrite :: u32 where
  "UpgradeableLoaderInstrTypeWrite = 1"
definition UpgradeableLoaderInstrTypeDeployWithMaxDataLen :: u32 where
  "UpgradeableLoaderInstrTypeDeployWithMaxDataLen = 2"
definition UpgradeableLoaderInstrTypeUpgrade :: u32 where
  "UpgradeableLoaderInstrTypeUpgrade = 3"

definition UpgradeableLoaderStateTypeUninitialized :: u32 where
  "UpgradeableLoaderStateTypeUninitialized = 0"
definition UpgradeableLoaderStateTypeBuffer :: u32 where
  "UpgradeableLoaderStateTypeBuffer = 1"
definition UpgradeableLoaderStateTypeProgram :: u32 where
  "UpgradeableLoaderStateTypeProgram = 2"
definition UpgradeableLoaderStateTypeProgramData :: u32 where
  "UpgradeableLoaderStateTypeProgramData = 3"

lemmas StateType_defs =
  UpgradeableLoaderStateTypeUninitialized_def UpgradeableLoaderStateTypeBuffer_def
  UpgradeableLoaderStateTypeProgram_def UpgradeableLoaderStateTypeProgramData_def

record UpgradeableLoaderInstrWrite =
  Offset :: u32
  Bytes :: "byte list"

record UpgradeableLoaderInstrDeployWithMaxDataLen =
  MaxDataLen :: u64

text \<open>
  The account states. A Go pointer to a key that may be nil is an option. The state
  struct holds the tag and every variant side by side, as the source has it.
\<close>

record UpgradeableLoaderStateBuffer =
  AuthorityAddress :: "PublicKey option"

record UpgradeableLoaderStateProgram =
  ProgramDataAddress :: PublicKey

record UpgradeableLoaderStateProgramData =
  Slot :: u64
  UpgradeAuthorityAddress :: "PublicKey option"

record UpgradeableLoaderState =
  Type :: u32
  Buffer :: UpgradeableLoaderStateBuffer
  Program :: UpgradeableLoaderStateProgram
  ProgramData :: UpgradeableLoaderStateProgramData

text \<open>The zero value of the struct, which \<^verbatim>\<open>new\<close> and a composite literal start from.\<close>

definition zeroPublicKey :: PublicKey where
  "zeroPublicKey = replicate 32 0"

definition zeroState :: UpgradeableLoaderState where
  "zeroState =
     \<lparr>Type = 0,
      Buffer = \<lparr>AuthorityAddress = None\<rparr>,
      Program = \<lparr>ProgramDataAddress = zeroPublicKey\<rparr>,
      ProgramData = \<lparr>Slot = 0, UpgradeAuthorityAddress = None\<rparr>\<rparr>"

definition upgradeableLoaderSizeOfBufferMetaData :: nat where
  "upgradeableLoaderSizeOfBufferMetaData = 37"
definition upgradeableLoaderSizeOfProgram :: nat where
  "upgradeableLoaderSizeOfProgram = 36"
definition upgradeableLoaderSizeOfProgramDataMetaData :: nat where
  "upgradeableLoaderSizeOfProgramDataMetaData = 45"

definition upgradeableLoaderSizeOfProgramData :: "u64 \<Rightarrow> u64" where
  "upgradeableLoaderSizeOfProgramData programLen =
     SaturatingAddU64 (of_nat upgradeableLoaderSizeOfProgramDataMetaData) programLen"

definition upgradeableLoaderSizeOfBuffer :: "u64 \<Rightarrow> u64" where
  "upgradeableLoaderSizeOfBuffer programLen =
     SaturatingAddU64 (of_nat upgradeableLoaderSizeOfBufferMetaData) programLen"

subsection \<open>Decoding and encoding (lines 78 to 272)\<close>

definition UpgradeableLoaderInstrWrite_UnmarshalWithDecoder ::
  "byte list \<Rightarrow> UpgradeableLoaderInstrWrite option" where
  "UpgradeableLoaderInstrWrite_UnmarshalWithDecoder d =
     (case ReadUint32 d of None \<Rightarrow> None
      | Some (off, r) \<Rightarrow>
     (case ReadByteSlice r of None \<Rightarrow> None
      | Some (bs, r') \<Rightarrow> Some \<lparr>Offset = off, Bytes = bs\<rparr>))"

definition UpgradeableLoaderInstrDeployWithMaxDataLen_UnmarshalWithDecoder ::
  "byte list \<Rightarrow> UpgradeableLoaderInstrDeployWithMaxDataLen option" where
  "UpgradeableLoaderInstrDeployWithMaxDataLen_UnmarshalWithDecoder d =
     (case ReadUint64 d of None \<Rightarrow> None
      | Some (n, r) \<Rightarrow> Some \<lparr>MaxDataLen = n\<rparr>)"

definition UpgradeableLoaderStateBuffer_UnmarshalWithDecoder ::
  "UpgradeableLoaderStateBuffer \<Rightarrow> byte list \<Rightarrow> UpgradeableLoaderStateBuffer option" where
  "UpgradeableLoaderStateBuffer_UnmarshalWithDecoder buffer d =
     (case ReadBool d of None \<Rightarrow> None
      | Some (hasPubkey, r) \<Rightarrow>
          if hasPubkey then
            (case ReadBytes PublicKeyLength r of None \<Rightarrow> None
             | Some (pkBytes, r') \<Rightarrow> Some (buffer\<lparr>AuthorityAddress := Some pkBytes\<rparr>))
          else Some buffer)"

definition UpgradeableLoaderStateBuffer_MarshalWithEncoder ::
  "UpgradeableLoaderStateBuffer \<Rightarrow> byte list" where
  "UpgradeableLoaderStateBuffer_MarshalWithEncoder buffer =
     (case AuthorityAddress buffer of None \<Rightarrow> [] | Some authAddr \<Rightarrow> authAddr)"

definition UpgradeableLoaderStateProgram_UnmarshalWithDecoder ::
  "UpgradeableLoaderStateProgram \<Rightarrow> byte list \<Rightarrow> UpgradeableLoaderStateProgram option" where
  "UpgradeableLoaderStateProgram_UnmarshalWithDecoder program d =
     (case ReadBytes PublicKeyLength d of None \<Rightarrow> None
      | Some (pkBytes, r) \<Rightarrow> Some (program\<lparr>ProgramDataAddress := pkBytes\<rparr>))"

definition UpgradeableLoaderStateProgram_MarshalWithEncoder ::
  "UpgradeableLoaderStateProgram \<Rightarrow> byte list" where
  "UpgradeableLoaderStateProgram_MarshalWithEncoder program = ProgramDataAddress program"

definition UpgradeableLoaderStateProgramData_UnmarshalWithDecoder ::
  "UpgradeableLoaderStateProgramData \<Rightarrow> byte list \<Rightarrow> UpgradeableLoaderStateProgramData option" where
  "UpgradeableLoaderStateProgramData_UnmarshalWithDecoder programData d =
     (case ReadUint64 d of None \<Rightarrow> None
      | Some (slot, r) \<Rightarrow>
     (case ReadBool r of None \<Rightarrow> None
      | Some (hasPubkey, r') \<Rightarrow>
          if hasPubkey then
            (case ReadBytes PublicKeyLength r' of None \<Rightarrow> None
             | Some (pkBytes, r'') \<Rightarrow>
                 Some (programData\<lparr>Slot := slot, UpgradeAuthorityAddress := Some pkBytes\<rparr>))
          else Some (programData\<lparr>Slot := slot\<rparr>)))"

definition UpgradeableLoaderStateProgramData_MarshalWithEncoder ::
  "UpgradeableLoaderStateProgramData \<Rightarrow> byte list" where
  "UpgradeableLoaderStateProgramData_MarshalWithEncoder programData =
     WriteUint64 (Slot programData) @
     (case UpgradeAuthorityAddress programData of None \<Rightarrow> []
      | Some upgradeAuthAddr \<Rightarrow> upgradeAuthAddr)"

text \<open>
  UpgradeableLoaderState.UnmarshalWithDecoder (lines 181 to 217): the tag, then the
  payload of the variant the tag names. An unknown tag is an error.
\<close>

definition UpgradeableLoaderState_UnmarshalWithDecoder ::
  "UpgradeableLoaderState \<Rightarrow> byte list \<Rightarrow> UpgradeableLoaderState option" where
  "UpgradeableLoaderState_UnmarshalWithDecoder state d =
     (case ReadUint32 d of None \<Rightarrow> None
      | Some (t, r) \<Rightarrow>
          if t = UpgradeableLoaderStateTypeUninitialized then Some (state\<lparr>Type := t\<rparr>)
          else if t = UpgradeableLoaderStateTypeBuffer then
            (case UpgradeableLoaderStateBuffer_UnmarshalWithDecoder (Buffer state) r of
               None \<Rightarrow> None | Some b \<Rightarrow> Some (state\<lparr>Type := t, Buffer := b\<rparr>))
          else if t = UpgradeableLoaderStateTypeProgram then
            (case UpgradeableLoaderStateProgram_UnmarshalWithDecoder (Program state) r of
               None \<Rightarrow> None | Some p \<Rightarrow> Some (state\<lparr>Type := t, Program := p\<rparr>))
          else if t = UpgradeableLoaderStateTypeProgramData then
            (case UpgradeableLoaderStateProgramData_UnmarshalWithDecoder (ProgramData state) r of
               None \<Rightarrow> None | Some p \<Rightarrow> Some (state\<lparr>Type := t, ProgramData := p\<rparr>))
          else None)"

text \<open>
  UpgradeableLoaderState.MarshalWithEncoder (lines 219 to 248): the switch on the tag
  calls the variant's encoder and writes nothing else; an unknown tag panics.
\<close>

definition UpgradeableLoaderState_MarshalWithEncoder ::
  "UpgradeableLoaderState \<Rightarrow> fault + byte list" where
  "UpgradeableLoaderState_MarshalWithEncoder state =
     (if Type state = UpgradeableLoaderStateTypeUninitialized then Inr []
      else if Type state = UpgradeableLoaderStateTypeBuffer then
        Inr (UpgradeableLoaderStateBuffer_MarshalWithEncoder (Buffer state))
      else if Type state = UpgradeableLoaderStateTypeProgram then
        Inr (UpgradeableLoaderStateProgram_MarshalWithEncoder (Program state))
      else if Type state = UpgradeableLoaderStateTypeProgramData then
        Inr (UpgradeableLoaderStateProgramData_MarshalWithEncoder (ProgramData state))
      else Inl Panic)"

text \<open>
  unmarshalUpgradeableLoaderState (lines 250 to 260) returns the nil pointer together
  with InvalidAccountData when decoding fails, whatever the decoder's error was.
\<close>

definition unmarshalUpgradeableLoaderState :: "byte list \<Rightarrow> fault + UpgradeableLoaderState" where
  "unmarshalUpgradeableLoaderState data =
     (case UpgradeableLoaderState_UnmarshalWithDecoder zeroState data of
        None \<Rightarrow> Inl (Err InstrErrInvalidAccountData)
      | Some state \<Rightarrow> Inr state)"

definition marshalUpgradeableLoaderState :: "UpgradeableLoaderState \<Rightarrow> fault + byte list" where
  "marshalUpgradeableLoaderState state = UpgradeableLoaderState_MarshalWithEncoder state"

subsection \<open>Control flow\<close>

text \<open>
  \<^verbatim>\<open>x, err := f(); if err != nil { return err }\<close> is bindE where the function only
  reads, and bindS in a function that writes to the accounts: the error is returned
  and the accounts stay as they are at that point. thenS runs a writing step and
  continues on the accounts it leaves. nilDeref is the use of a returned pointer whose
  error was not looked at: a panic when the pointer is nil.
\<close>

definition bindE :: "fault + 'a \<Rightarrow> ('a \<Rightarrow> fault + 'b) \<Rightarrow> fault + 'b" where
  "bindE m f = (case m of Inl e \<Rightarrow> Inl e | Inr x \<Rightarrow> f x)"

definition nilDeref :: "fault + 'a \<Rightarrow> fault + 'a" where
  "nilDeref m = (case m of Inl e \<Rightarrow> Inl Panic | Inr x \<Rightarrow> Inr x)"

subsection \<open>The host: accounts, instruction context, accessors\<close>

text \<open>
  The accounts of the transaction are a store indexed by position: a borrowed account
  is a position in it, and every write through a borrowed account is a write to the
  store, so that two borrows of one account see each other's writes as the pointers of
  the source do.
\<close>

record Account =
  Key :: PublicKey
  Lamports :: u64
  Data :: "byte list"
  Owner :: PublicKey
  Executable :: bool

type_synonym TransactionCtx = "Account list"

record InstructionAccount =
  IndexInTransaction :: nat
  IsSigner :: bool
  IsWritable :: bool

record InstructionCtx =
  ProgramAccounts :: "nat list"
  InstructionAccounts :: "InstructionAccount list"
  InstrData :: "byte list"

type_synonym outcome = "fault option \<times> TransactionCtx"

definition bindS :: "fault + 'a \<Rightarrow> TransactionCtx \<Rightarrow> ('a \<Rightarrow> outcome) \<Rightarrow> outcome" where
  "bindS m txCtx f = (case m of Inl e \<Rightarrow> (Some e, txCtx) | Inr x \<Rightarrow> f x)"

definition thenS :: "outcome \<Rightarrow> (TransactionCtx \<Rightarrow> outcome) \<Rightarrow> outcome" where
  "thenS r f = (case r of (Some e, t) \<Rightarrow> (Some e, t) | (None, t) \<Rightarrow> f t)"

text \<open>
  What the loader reads from the execution context: the rent and clock sysvars, the
  feature gate, and the constants and services declared outside the loader's file
  (the sysvar addresses, MaxPermittedDataLength, the address derivation of the solana
  package and the cross-program invocation), taken as parameters.
\<close>

record ExecutionCtx =
  Rent_MinimumBalance :: "u64 \<Rightarrow> u64"
  Clock_Slot :: u64
  SysvarRentAddr :: PublicKey
  SysvarClockAddr :: PublicKey
  DeprecateExecutableMetaUpdateInBpfLoader :: bool
  MaxPermittedDataLength :: u64
  FindProgramAddress :: "byte list list \<Rightarrow> PublicKey \<Rightarrow> PublicKey \<times> byte"
  CreateProgramAddress :: "byte list list \<Rightarrow> PublicKey \<Rightarrow> PublicKey option"
  NativeInvoke :: "PublicKey \<times> PublicKey \<times> u64 \<times> u64 \<times> PublicKey \<times> PublicKey
                   \<Rightarrow> PublicKey list \<Rightarrow> TransactionCtx \<Rightarrow> outcome"

text \<open>
  Modelled from the spec: the accessors of InstructionCtx and TransactionCtx listed in
  section 6 are not among the sources. CheckNumOfInstructionAccounts guards
  account-index access; the index and key lookups fail on a position that does not
  exist; BorrowInstructionAccount yields the account at the instruction account's
  position in the transaction.
\<close>

definition CheckNumOfInstructionAccounts :: "InstructionCtx \<Rightarrow> nat \<Rightarrow> fault + unit" where
  "CheckNumOfInstructionAccounts instrCtx n =
     (if length (InstructionAccounts instrCtx) < n then Inl (Err InstrErrNotEnoughAccountKeys)
      else Inr ())"

definition IndexOfInstructionAccountInTransaction :: "InstructionCtx \<Rightarrow> nat \<Rightarrow> fault + nat" where
  "IndexOfInstructionAccountInTransaction instrCtx i =
     (if i < length (InstructionAccounts instrCtx)
      then Inr (IndexInTransaction (InstructionAccounts instrCtx ! i))
      else Inl (Err InstrErrNotEnoughAccountKeys))"

definition KeyOfAccountAtIndex :: "TransactionCtx \<Rightarrow> nat \<Rightarrow> fault + PublicKey" where
  "KeyOfAccountAtIndex txCtx idx =
     (if idx < length txCtx then Inr (Key (txCtx ! idx)) else Inl (Err InstrErrNotEnoughAccountKeys))"

definition IsInstructionAccountSigner :: "InstructionCtx \<Rightarrow> nat \<Rightarrow> fault + bool" where
  "IsInstructionAccountSigner instrCtx i =
     (if i < length (InstructionAccounts instrCtx)
      then Inr (IsSigner (InstructionAccounts instrCtx ! i))
      else Inl (Err InstrErrNotEnoughAccountKeys))"

definition IsInstructionAccountWritable :: "InstructionCtx \<Rightarrow> nat \<Rightarrow> bool" where
  "IsInstructionAccountWritable instrCtx i =
     (i < length (InstructionAccounts instrCtx) \<and> IsWritable (InstructionAccounts instrCtx ! i))"

definition BorrowInstructionAccount :: "InstructionCtx \<Rightarrow> TransactionCtx \<Rightarrow> nat \<Rightarrow> fault + nat" where
  "BorrowInstructionAccount instrCtx txCtx i =
     bindE (IndexOfInstructionAccountInTransaction instrCtx i) (\<lambda>idxInTx.
     if idxInTx < length txCtx then Inr idxInTx else Inl (Err InstrErrMissingAccount))"

definition LastProgramKey :: "InstructionCtx \<Rightarrow> TransactionCtx \<Rightarrow> fault + PublicKey" where
  "LastProgramKey instrCtx txCtx =
     (if ProgramAccounts instrCtx = [] then Inl (Err InstrErrNotEnoughAccountKeys)
      else KeyOfAccountAtIndex txCtx (last (ProgramAccounts instrCtx)))"

text \<open>
  Modelled from the spec: checkAcctForRentSysvar and checkAcctForClockSysvar are not
  among the sources. Section 4.5: the index position of the sysvar account is validated,
  else InvalidArgument.
\<close>

definition checkAcctForSysvar ::
  "PublicKey \<Rightarrow> TransactionCtx \<Rightarrow> InstructionCtx \<Rightarrow> nat \<Rightarrow> fault + unit" where
  "checkAcctForSysvar sysvarAddr txCtx instrCtx i =
     bindE (IndexOfInstructionAccountInTransaction instrCtx i) (\<lambda>idx.
     bindE (KeyOfAccountAtIndex txCtx idx) (\<lambda>k.
     if k = sysvarAddr then Inr () else Inl (Err InstrErrInvalidArgument)))"

text \<open>
  Modelled from the spec: the mutators of BorrowedAccount are not among the sources.
  Section 4.1: the codec writes into the prefix of the account's data, and
  AccountDataTooSmall is insufficient backing storage for the planned write.
  Section 4.5, step 8: the lamport addition is checked. SetDataLength truncates the
  data or extends it with zero bytes.
\<close>

definition SetState :: "nat \<Rightarrow> byte list \<Rightarrow> TransactionCtx \<Rightarrow> outcome" where
  "SetState acct bs txCtx =
     (let a = txCtx ! acct in
      if length (Data a) < length bs then (Some (Err InstrErrAccountDataTooSmall), txCtx)
      else (None, txCtx[acct := a\<lparr>Data := bs @ drop (length bs) (Data a)\<rparr>]))"

definition SetLamports :: "nat \<Rightarrow> u64 \<Rightarrow> TransactionCtx \<Rightarrow> outcome" where
  "SetLamports acct n txCtx = (None, txCtx[acct := (txCtx ! acct)\<lparr>Lamports := n\<rparr>])"

definition CheckedAddLamports :: "nat \<Rightarrow> u64 \<Rightarrow> TransactionCtx \<Rightarrow> outcome" where
  "CheckedAddLamports acct n txCtx =
     (let a = txCtx ! acct in
      if unat (Lamports a) + unat n < 2 ^ 64
      then (None, txCtx[acct := a\<lparr>Lamports := Lamports a + n\<rparr>])
      else (Some (Err InstrErrArithmeticOverflow), txCtx))"

definition SetDataLength :: "nat \<Rightarrow> u64 \<Rightarrow> TransactionCtx \<Rightarrow> outcome" where
  "SetDataLength acct n txCtx =
     (let a = txCtx ! acct; d = Data a in
      (None, txCtx[acct := a\<lparr>Data := take (unat n) d @ replicate (unat n - length d) 0\<rparr>]))"

definition SetExecutable :: "nat \<Rightarrow> bool \<Rightarrow> TransactionCtx \<Rightarrow> outcome" where
  "SetExecutable acct b txCtx = (None, txCtx[acct := (txCtx ! acct)\<lparr>Executable := b\<rparr>])"

text \<open>
  Go's \<^verbatim>\<open>copy(data[lo:hi], src)\<close>: the slice expression panics unless
  \<open>lo \<le> hi\<close> and \<open>hi\<close> is within the slice; copy then moves as many bytes
  as the shorter of the two slices has.
\<close>

definition copy_into :: "byte list \<Rightarrow> nat \<Rightarrow> nat \<Rightarrow> byte list \<Rightarrow> byte list option" where
  "copy_into data lo hi src =
     (if lo \<le> hi \<and> hi \<le> length data
      then (let n = min (hi - lo) (length src)
            in Some (take lo data @ take n src @ drop (lo + n) data))
      else None)"

subsection \<open>The handlers\<close>

text \<open>
  The handlers receive the instruction context they run in; where the source fetches
  it again from the transaction context (writeProgramData), it is the same one.
\<close>

definition setUpgradeableLoaderAccountState ::
  "nat \<Rightarrow> UpgradeableLoaderState \<Rightarrow> TransactionCtx \<Rightarrow> outcome" where
  "setUpgradeableLoaderAccountState acct state txCtx =
     bindS (marshalUpgradeableLoaderState state) txCtx (\<lambda>acctStateBytes.
     SetState acct acctStateBytes txCtx)"

text \<open>writeProgramData (lines 284 to 304).\<close>

definition writeProgramData :: "InstructionCtx \<Rightarrow> u64 \<Rightarrow> byte list \<Rightarrow> TransactionCtx \<Rightarrow> outcome" where
  "writeProgramData instrCtx programDataOffset bs txCtx =
     bindS (BorrowInstructionAccount instrCtx txCtx 0) txCtx (\<lambda>program.
     let writeOffset = SaturatingAddU64 programDataOffset (of_nat (length bs)) in
     if (of_nat (length (Data (txCtx ! program))) :: u64) < writeOffset
     then (Some (Err InstrErrAccountDataTooSmall), txCtx)
     else (case copy_into (Data (txCtx ! program)) (unat programDataOffset) (unat writeOffset) bs of
             None \<Rightarrow> (Some Panic, txCtx)
           | Some d \<Rightarrow> (None, txCtx[program := (txCtx ! program)\<lparr>Data := d\<rparr>])))"

text \<open>UpgradeableLoaderInitializeBuffer (lines 355 to 391).\<close>

definition UpgradeableLoaderInitializeBuffer :: "InstructionCtx \<Rightarrow> TransactionCtx \<Rightarrow> outcome" where
  "UpgradeableLoaderInitializeBuffer instrCtx txCtx =
     bindS (CheckNumOfInstructionAccounts instrCtx 2) txCtx (\<lambda>_.
     bindS (BorrowInstructionAccount instrCtx txCtx 0) txCtx (\<lambda>buffer.
     bindS (unmarshalUpgradeableLoaderState (Data (txCtx ! buffer))) txCtx (\<lambda>state.
     if Type state \<noteq> UpgradeableLoaderStateTypeUninitialized
     then (Some (Err InstrErrAccountAlreadyInitialized), txCtx)
     else
     bindS (IndexOfInstructionAccountInTransaction instrCtx 1) txCtx (\<lambda>authorityKeyIdx.
     bindS (KeyOfAccountAtIndex txCtx authorityKeyIdx) txCtx (\<lambda>authorityKey.
     setUpgradeableLoaderAccountState buffer
       (state\<lparr>Type := UpgradeableLoaderStateTypeBuffer,
              Buffer := (Buffer state)\<lparr>AuthorityAddress := Some authorityKey\<rparr>\<rparr>) txCtx)))))"

text \<open>UpgradeableLoaderWrite (lines 393 to 444).\<close>

definition UpgradeableLoaderWrite ::
  "InstructionCtx \<Rightarrow> UpgradeableLoaderInstrWrite \<Rightarrow> TransactionCtx \<Rightarrow> outcome" where
  "UpgradeableLoaderWrite instrCtx write txCtx =
     bindS (CheckNumOfInstructionAccounts instrCtx 2) txCtx (\<lambda>_.
     bindS (BorrowInstructionAccount instrCtx txCtx 0) txCtx (\<lambda>buffer.
     bindS (unmarshalUpgradeableLoaderState (Data (txCtx ! buffer))) txCtx (\<lambda>state.
     if Type state = UpgradeableLoaderStateTypeBuffer then
       (case AuthorityAddress (Buffer state) of
          None \<Rightarrow> (Some (Err InstrErrImmutable), txCtx)
        | Some authorityAddress \<Rightarrow>
            bindS (IndexOfInstructionAccountInTransaction instrCtx 1) txCtx (\<lambda>authorityKeyIdx.
            bindS (KeyOfAccountAtIndex txCtx authorityKeyIdx) txCtx (\<lambda>authorityKey.
            if authorityAddress \<noteq> authorityKey
            then (Some (Err InstrErrIncorrectAuthority), txCtx)
            else
            bindS (IsInstructionAccountSigner instrCtx 1) txCtx (\<lambda>isSigner.
            if \<not> isSigner then (Some (Err InstrErrMissingRequiredSignature), txCtx)
            else
            writeProgramData instrCtx
              (of_nat upgradeableLoaderSizeOfBufferMetaData + ucast (Offset write))
              (Bytes write) txCtx))))
     else (Some (Err InstrErrInvalidAccountData), txCtx))))"

text \<open>
  UpgradeableLoaderUpgrade (lines 672 to 875), in the three stretches of the source:
  the checks on the accounts, the program, the buffer and the program data's size and
  funds (lines 673 to 794), which only read; the check of the program data's state
  (lines 796 to 820); and the writes (lines 824 to 874). The first stretch hands its
  local variables to the other two.
\<close>

record UpgradeLocals =
  authorityKey :: PublicKey
  buffer :: nat
  bufferLamports :: u64
  bufferDataLen :: u64
  programData :: nat
  programDataBalanceRequired :: u64

text \<open>
  Line 752 drops the error of the buffer's decoding and line 753 reads the tag through
  the returned pointer, which is nil when the decoding failed.
\<close>

definition UpgradeableLoaderUpgrade_checks ::
  "ExecutionCtx \<Rightarrow> InstructionCtx \<Rightarrow> TransactionCtx \<Rightarrow> fault + UpgradeLocals" where
  "UpgradeableLoaderUpgrade_checks execCtx instrCtx txCtx =
     bindE (CheckNumOfInstructionAccounts instrCtx 3) (\<lambda>_.
     bindE (IndexOfInstructionAccountInTransaction instrCtx 0) (\<lambda>programDataKeyIdx.
     bindE (KeyOfAccountAtIndex txCtx programDataKeyIdx) (\<lambda>programDataKey.
     bindE (checkAcctForSysvar (SysvarRentAddr execCtx) txCtx instrCtx 4) (\<lambda>_.
     bindE (checkAcctForSysvar (SysvarClockAddr execCtx) txCtx instrCtx 5) (\<lambda>_.
     bindE (CheckNumOfInstructionAccounts instrCtx 7) (\<lambda>_.
     bindE (IndexOfInstructionAccountInTransaction instrCtx 6) (\<lambda>authorityKeyIdx.
     bindE (KeyOfAccountAtIndex txCtx authorityKeyIdx) (\<lambda>authKey.
     bindE (BorrowInstructionAccount instrCtx txCtx 1) (\<lambda>program.
     if \<not> Executable (txCtx ! program) then Inl (Err InstrErrAccountNotExecutable)
     else if \<not> IsInstructionAccountWritable instrCtx 1 then Inl (Err InstrErrInvalidArgument)
     else
     bindE (LastProgramKey instrCtx txCtx) (\<lambda>programId.
     if Owner (txCtx ! program) \<noteq> programId then Inl (Err InstrErrIncorrectProgramId)
     else
     bindE (unmarshalUpgradeableLoaderState (Data (txCtx ! program))) (\<lambda>programState.
     if Type programState \<noteq> UpgradeableLoaderStateTypeProgram
     then Inl (Err InstrErrInvalidAccountData)
     else if ProgramDataAddress (Program programState) \<noteq> programDataKey
     then Inl (Err InstrErrInvalidArgument)
     else
     bindE (BorrowInstructionAccount instrCtx txCtx 2) (\<lambda>buf.
     bindE (nilDeref (unmarshalUpgradeableLoaderState (Data (txCtx ! buf)))) (\<lambda>bufferState.
     if Type bufferState \<noteq> UpgradeableLoaderStateTypeBuffer
     then Inl (Err InstrErrInvalidArgument)
     else if AuthorityAddress (Buffer bufferState) = None
             \<or> AuthorityAddress (Buffer bufferState) \<noteq> Some authKey
     then Inl (Err InstrErrIncorrectAuthority)
     else
     bindE (IsInstructionAccountSigner instrCtx 6) (\<lambda>isSigner.
     if \<not> isSigner then Inl (Err InstrErrMissingRequiredSignature)
     else
     let bufLamports = Lamports (txCtx ! buf);
         bufferDataOffset = (of_nat upgradeableLoaderSizeOfBufferMetaData :: u64);
         bufDataLen = SaturatingSubU64 (of_nat (length (Data (txCtx ! buf)))) bufferDataOffset
     in
     if length (Data (txCtx ! buf)) < upgradeableLoaderSizeOfBufferMetaData \<or> bufDataLen = 0
     then Inl (Err InstrErrInvalidAccountData)
     else
     bindE (BorrowInstructionAccount instrCtx txCtx 0) (\<lambda>pd.
     let minBalance = Rent_MinimumBalance execCtx (of_nat (length (Data (txCtx ! pd))));
         balanceRequired = (if minBalance > 1 then minBalance else 1)
     in
     if int (length (Data (txCtx ! pd))) < sint (upgradeableLoaderSizeOfProgramData bufDataLen)
     then Inl (Err InstrErrAccountDataTooSmall)
     else if SaturatingAddU64 (Lamports (txCtx ! pd)) bufLamports < balanceRequired
     then Inl (Err InstrErrInsufficientFunds)
     else
     Inr \<lparr>authorityKey = authKey, buffer = buf, bufferLamports = bufLamports,
          bufferDataLen = bufDataLen, programData = pd,
          programDataBalanceRequired = balanceRequired\<rparr>)))))))))))))))"

definition UpgradeableLoaderUpgrade_programData_state ::
  "ExecutionCtx \<Rightarrow> InstructionCtx \<Rightarrow> UpgradeLocals \<Rightarrow> TransactionCtx \<Rightarrow> fault + unit" where
  "UpgradeableLoaderUpgrade_programData_state execCtx instrCtx l txCtx =
     bindE (unmarshalUpgradeableLoaderState (Data (txCtx ! programData l))) (\<lambda>programDataState.
     if Type programDataState = UpgradeableLoaderStateTypeProgramData then
       if Clock_Slot execCtx = Slot (ProgramData programDataState)
       then Inl (Err InstrErrInvalidArgument)
       else
       (case UpgradeAuthorityAddress (ProgramData programDataState) of
          None \<Rightarrow> Inl (Err InstrErrImmutable)
        | Some upgradeAuthorityAddress \<Rightarrow>
            if upgradeAuthorityAddress \<noteq> authorityKey l
            then Inl (Err InstrErrIncorrectAuthority)
            else
            bindE (IsInstructionAccountSigner instrCtx 6) (\<lambda>isSigner.
            if \<not> isSigner then Inl (Err InstrErrMissingRequiredSignature) else Inr ()))
     else Inl (Err InstrErrInvalidAccountData))"

text \<open>
  The composite literal of line 824 sets the ProgramData field only: the tag of the new
  state is the zero value.
\<close>

definition UpgradeableLoaderUpgrade_writes ::
  "ExecutionCtx \<Rightarrow> InstructionCtx \<Rightarrow> UpgradeLocals \<Rightarrow> TransactionCtx \<Rightarrow> outcome" where
  "UpgradeableLoaderUpgrade_writes execCtx instrCtx l txCtx =
     (let programDataNewState =
            zeroState\<lparr>ProgramData :=
              \<lparr>Slot = Clock_Slot execCtx, UpgradeAuthorityAddress = Some (authorityKey l)\<rparr>\<rparr>
      in
      thenS (setUpgradeableLoaderAccountState (programData l) programDataNewState txCtx) (\<lambda>t1.
      let programDataDataOffset = (of_nat upgradeableLoaderSizeOfProgramDataMetaData :: u64);
          bufferDataOffset = (of_nat upgradeableLoaderSizeOfBufferMetaData :: u64);
          dstEnd = SaturatingAddU64 programDataDataOffset (bufferDataLen l);
          pdData = Data (t1 ! programData l)
      in
      if (of_nat (length pdData) :: u64) < dstEnd then (Some (Err InstrErrAccountDataTooSmall), t1)
      else if (of_nat (length pdData) :: u64) < bufferDataOffset
      then (Some (Err InstrErrAccountDataTooSmall), t1)
      else if length (Data (t1 ! buffer l)) < unat bufferDataOffset then (Some Panic, t1)
      else
      (case copy_into pdData (unat programDataDataOffset) (unat dstEnd)
              (drop (unat bufferDataOffset) (Data (t1 ! buffer l))) of
         None \<Rightarrow> (Some Panic, t1)
       | Some copied \<Rightarrow>
           let filled = take (unat dstEnd) copied @ replicate (length copied - unat dstEnd) 0;
               t2 = t1[programData l := (t1 ! programData l)\<lparr>Data := filled\<rparr>]
           in
           bindS (BorrowInstructionAccount instrCtx t2 3) t2 (\<lambda>spill.
           let spillLamports =
                 SaturatingSubU64
                   (SaturatingAddU64 (Lamports (t2 ! programData l)) (bufferLamports l))
                   (programDataBalanceRequired l)
           in
           thenS (CheckedAddLamports spill spillLamports t2) (\<lambda>t3.
           thenS (SetLamports (buffer l) 0 t3) (\<lambda>t4.
           thenS (SetLamports (programData l) (programDataBalanceRequired l) t4) (\<lambda>t5.
           thenS (SetDataLength (buffer l) (upgradeableLoaderSizeOfBuffer 0) t5) (\<lambda>t6.
           (None, t6)))))))))"

definition UpgradeableLoaderUpgrade :: "ExecutionCtx \<Rightarrow> InstructionCtx \<Rightarrow> TransactionCtx \<Rightarrow> outcome" where
  "UpgradeableLoaderUpgrade execCtx instrCtx txCtx =
     bindS (UpgradeableLoaderUpgrade_checks execCtx instrCtx txCtx) txCtx (\<lambda>l.
     bindS (UpgradeableLoaderUpgrade_programData_state execCtx instrCtx l txCtx) txCtx (\<lambda>_.
     UpgradeableLoaderUpgrade_writes execCtx instrCtx l txCtx))"

text \<open>
  UpgradeableLoaderDeployWithMaxDataLen (lines 446 to 670). Line 488 takes the
  authority's key from instruction account 1 and leaves it nil when the lookup fails;
  line 528 decodes the buffer's state from the data of the program account; lines 586
  and 587 drop the errors of the two lamport updates.
\<close>

definition UpgradeableLoaderDeployWithMaxDataLen ::
  "ExecutionCtx \<Rightarrow> InstructionCtx \<Rightarrow> UpgradeableLoaderInstrDeployWithMaxDataLen
   \<Rightarrow> TransactionCtx \<Rightarrow> outcome" where
  "UpgradeableLoaderDeployWithMaxDataLen execCtx instrCtx deploy txCtx =
     bindS (CheckNumOfInstructionAccounts instrCtx 4) txCtx (\<lambda>_.
     bindS (IndexOfInstructionAccountInTransaction instrCtx 0) txCtx (\<lambda>payerKeyIdx.
     bindS (KeyOfAccountAtIndex txCtx payerKeyIdx) txCtx (\<lambda>payerKey.
     bindS (IndexOfInstructionAccountInTransaction instrCtx 1) txCtx (\<lambda>programDataKeyIdx.
     bindS (KeyOfAccountAtIndex txCtx programDataKeyIdx) txCtx (\<lambda>programDataKey.
     bindS (checkAcctForSysvar (SysvarRentAddr execCtx) txCtx instrCtx 4) txCtx (\<lambda>_.
     bindS (checkAcctForSysvar (SysvarClockAddr execCtx) txCtx instrCtx 5) txCtx (\<lambda>_.
     bindS (CheckNumOfInstructionAccounts instrCtx 8) txCtx (\<lambda>_.
     bindS (case IndexOfInstructionAccountInTransaction instrCtx 1 of
              Inl e \<Rightarrow> Inr None
            | Inr authorityIdx \<Rightarrow> bindE (KeyOfAccountAtIndex txCtx authorityIdx) (\<lambda>k. Inr (Some k)))
       txCtx (\<lambda>authKey.
     bindS (BorrowInstructionAccount instrCtx txCtx 2) txCtx (\<lambda>program.
     bindS (unmarshalUpgradeableLoaderState (Data (txCtx ! program))) txCtx (\<lambda>programAcctState.
     if Type programAcctState \<noteq> UpgradeableLoaderStateTypeUninitialized
     then (Some (Err InstrErrAccountAlreadyInitialized), txCtx)
     else if length (Data (txCtx ! program)) < upgradeableLoaderSizeOfProgram
     then (Some (Err InstrErrAccountDataTooSmall), txCtx)
     else if Lamports (txCtx ! program)
               < Rent_MinimumBalance execCtx (of_nat (length (Data (txCtx ! program))))
     then (Some (Err InstrErrExecutableAccountNotRentExempt), txCtx)
     else
     let newProgramId = Key (txCtx ! program) in
     bindS (BorrowInstructionAccount instrCtx txCtx 3) txCtx (\<lambda>buf.
     bindS (unmarshalUpgradeableLoaderState (Data (txCtx ! program))) txCtx (\<lambda>bufferAcctState.
     if Type bufferAcctState \<noteq> UpgradeableLoaderStateTypeBuffer
     then (Some (Err InstrErrInvalidArgument), txCtx)
     else if AuthorityAddress (Buffer bufferAcctState) \<noteq> None \<and> authKey \<noteq> None
             \<and> AuthorityAddress (Buffer bufferAcctState) \<noteq> authKey
     then (Some (Err InstrErrIncorrectAuthority), txCtx)
     else
     bindS (IsInstructionAccountSigner instrCtx 7) txCtx (\<lambda>isSigner.
     if \<not> isSigner then (Some (Err InstrErrMissingRequiredSignature), txCtx)
     else
     let bufferKey = Key (txCtx ! buf);
         bufferDataOffset = (of_nat upgradeableLoaderSizeOfBufferMetaData :: u64);
         bufDataLen = SaturatingSubU64 (of_nat (length (Data (txCtx ! buf)))) bufferDataOffset;
         programDataDataOffset = (of_nat upgradeableLoaderSizeOfProgramDataMetaData :: u64);
         programDataLen = upgradeableLoaderSizeOfProgramData (MaxDataLen deploy)
     in
     if (of_nat (length (Data (txCtx ! buf))) :: u64) < of_nat upgradeableLoaderSizeOfBufferMetaData
        \<or> bufDataLen = 0
     then (Some (Err InstrErrInvalidAccountData), txCtx)
     else if MaxDataLen deploy < bufDataLen then (Some (Err InstrErrAccountDataTooSmall), txCtx)
     else if programDataLen > MaxPermittedDataLength execCtx
     then (Some (Err InstrErrInvalidArgument), txCtx)
     else
     bindS (LastProgramKey instrCtx txCtx) txCtx (\<lambda>programId.
     let (derivedAddr, bumpSeed) = FindProgramAddress execCtx [newProgramId] programId in
     if derivedAddr \<noteq> programDataKey then (Some (Err InstrErrInvalidArgument), txCtx)
     else
     bindS (BorrowInstructionAccount instrCtx txCtx 0) txCtx (\<lambda>payer.
     let t1 = snd (CheckedAddLamports payer (Lamports (txCtx ! buf)) txCtx);
         t2 = snd (SetLamports buf 0 t1);
         minBalance = Rent_MinimumBalance execCtx programDataLen;
         lamports = (if minBalance > 1 then minBalance else 1);
         createAcctInstr =
           (payerKey, programDataKey, lamports, programDataLen, programId, bufferKey)
     in
     bindS (LastProgramKey instrCtx t2) t2 (\<lambda>callerProgramId.
     (case CreateProgramAddress execCtx [newProgramId, [bumpSeed]] callerProgramId of
        None \<Rightarrow> (Some ErrForeign, t2)
      | Some signer \<Rightarrow>
     thenS (NativeInvoke execCtx createAcctInstr [signer] t2) (\<lambda>t3.
     bindS (BorrowInstructionAccount instrCtx t3 1) t3 (\<lambda>pd.
     thenS (setUpgradeableLoaderAccountState pd
              (zeroState\<lparr>Type := UpgradeableLoaderStateTypeProgramData,
                 ProgramData := \<lparr>Slot = Clock_Slot execCtx, UpgradeAuthorityAddress = authKey\<rparr>\<rparr>)
              t3) (\<lambda>t4.
     let dstEnd = SaturatingAddU64 programDataDataOffset bufDataLen;
         pdData = Data (t4 ! pd)
     in
     if (of_nat (length pdData) :: u64) < dstEnd then (Some (Err InstrErrAccountDataTooSmall), t4)
     else if (of_nat (length pdData) :: u64) < bufferDataOffset
     then (Some (Err InstrErrAccountDataTooSmall), t4)
     else if length (Data (t4 ! buf)) < unat bufferDataOffset then (Some Panic, t4)
     else
     (case copy_into pdData (unat programDataDataOffset) (unat dstEnd)
             (drop (unat bufferDataOffset) (Data (t4 ! buf))) of
        None \<Rightarrow> (Some Panic, t4)
      | Some copied \<Rightarrow>
     thenS (SetDataLength buf (upgradeableLoaderSizeOfBuffer 0)
              (t4[pd := (t4 ! pd)\<lparr>Data := copied\<rparr>])) (\<lambda>t5.
     thenS (setUpgradeableLoaderAccountState program
              (zeroState\<lparr>Type := UpgradeableLoaderStateTypeProgram,
                 Program := \<lparr>ProgramDataAddress = programDataKey\<rparr>\<rparr>) t5) (\<lambda>t6.
     if \<not> DeprecateExecutableMetaUpdateInBpfLoader execCtx
     then thenS (SetExecutable program True t6) (\<lambda>t7. (None, t7))
     else (None, t6)))))))))))))))))))))))))"

text \<open>ProcessUpgradeableLoaderInstruction (lines 877 to 931).\<close>

definition ProcessUpgradeableLoaderInstruction ::
  "ExecutionCtx \<Rightarrow> InstructionCtx \<Rightarrow> TransactionCtx \<Rightarrow> outcome" where
  "ProcessUpgradeableLoaderInstruction execCtx instrCtx txCtx =
     (case ReadUint32 (InstrData instrCtx) of
        None \<Rightarrow> (Some (Err InstrErrInvalidInstructionData), txCtx)
      | Some (instrType, decoder) \<Rightarrow>
          if instrType = UpgradeableLoaderInstrTypeInitializeBuffer
          then UpgradeableLoaderInitializeBuffer instrCtx txCtx
          else if instrType = UpgradeableLoaderInstrTypeWrite
          then (case UpgradeableLoaderInstrWrite_UnmarshalWithDecoder decoder of
                  None \<Rightarrow> (Some (Err InstrErrInvalidInstructionData), txCtx)
                | Some write \<Rightarrow> UpgradeableLoaderWrite instrCtx write txCtx)
          else if instrType = UpgradeableLoaderInstrTypeDeployWithMaxDataLen
          then (case UpgradeableLoaderInstrDeployWithMaxDataLen_UnmarshalWithDecoder decoder of
                  None \<Rightarrow> (Some (Err InstrErrInvalidInstructionData), txCtx)
                | Some deploy \<Rightarrow> UpgradeableLoaderDeployWithMaxDataLen execCtx instrCtx deploy txCtx)
          else if instrType = UpgradeableLoaderInstrTypeUpgrade
          then UpgradeableLoaderUpgrade execCtx instrCtx txCtx
          else (Some (Err InstrErrInvalidInstructionData), txCtx))"

section \<open>Properties\<close>

subsection \<open>Control flow and arithmetic\<close>

lemma bindE_simps [simp]: "bindE (Inl e) f = Inl e" "bindE (Inr x) f = f x"
  by (simp_all add: bindE_def)

lemma bindS_simps [simp]: "bindS (Inl e) t g = (Some e, t)" "bindS (Inr x) t g = g x"
  by (simp_all add: bindS_def)

lemma thenS_simps [simp]: "thenS (Some e, t) h = (Some e, t)" "thenS (None, t) h = h t"
  by (simp_all add: thenS_def)

lemma nilDeref_simps [simp]: "nilDeref (Inl e) = Inl Panic" "nilDeref (Inr x) = Inr x"
  by (simp_all add: nilDeref_def)

lemma unat_SaturatingAddU64:
  "unat (SaturatingAddU64 a b) = min (unat a + unat b) (2 ^ 64 - 1)"
proof (cases "unat a + unat b < 2 ^ 64")
  case True
  then have "a \<le> a + b" by (simp add: no_olen_add_nat)
  then have "\<not> a + b < a" by simp
  moreover have "unat (a + b) = unat a + unat b"
    using True by (simp add: unat_plus_if_size word_size)
  ultimately show ?thesis using True by (simp add: SaturatingAddU64_def)
next
  case False
  then have "\<not> a \<le> a + b" by (simp add: no_olen_add_nat)
  then have "a + b < a" by simp
  moreover have "unat (- 1 :: u64) = 2 ^ 64 - 1"
    by (simp add: unsigned_minus_1_eq_mask mask_eq_exp_minus_1)
  ultimately show ?thesis using False by (simp add: SaturatingAddU64_def)
qed

lemma unat_SaturatingSubU64: "unat (SaturatingSubU64 a b) = unat a - unat b"
  by (auto simp: SaturatingSubU64_def word_less_nat_alt unat_sub word_le_nat_alt)

lemma unat_ucast_u32: "unat (ucast (x :: u32) :: u64) = unat x"
  by transfer (simp add: take_bit_nat_eq_self)

lemma unat_write_offset:
  "unat (of_nat upgradeableLoaderSizeOfBufferMetaData + ucast (off :: u32) :: u64) = 37 + unat off"
proof -
  have "unat off < 2 ^ 32" using unsigned_less [of off] by simp
  then have "unat (37 :: u64) + unat (ucast off :: u64) < 2 ^ 64"
    by (simp add: unat_ucast_u32)
  then have "unat (37 + ucast off :: u64) = unat (37 :: u64) + unat (ucast off :: u64)"
    by (simp add: unat_plus_if_size word_size)
  then show ?thesis
    by (simp add: upgradeableLoaderSizeOfBufferMetaData_def unat_ucast_u32)
qed

lemma word_less_of_nat_len: "n < 2 ^ 64 \<Longrightarrow> ((of_nat n :: u64) < w) = (n < unat w)"
  by (simp add: word_less_nat_alt unat_of_nat)

subsection \<open>The codec on the four layouts\<close>

lemmas codec_defs =
  unmarshalUpgradeableLoaderState_def UpgradeableLoaderState_UnmarshalWithDecoder_def
  UpgradeableLoaderStateBuffer_UnmarshalWithDecoder_def
  UpgradeableLoaderStateProgram_UnmarshalWithDecoder_def
  UpgradeableLoaderStateProgramData_UnmarshalWithDecoder_def
  marshalUpgradeableLoaderState_def UpgradeableLoaderState_MarshalWithEncoder_def
  UpgradeableLoaderStateBuffer_MarshalWithEncoder_def
  UpgradeableLoaderStateProgram_MarshalWithEncoder_def
  UpgradeableLoaderStateProgramData_MarshalWithEncoder_def
  ReadUint32_def ReadUint64_def ReadBytes_def ReadBool_def le_word_def StateType_defs
  PublicKeyLength_def

lemma unmarshal_Uninitialized:
  "unmarshalUpgradeableLoaderState ([0, 0, 0, 0] @ rest) = Inr zeroState"
  by (simp add: codec_defs zeroState_def)

lemma unmarshal_Buffer_None:
  "unmarshalUpgradeableLoaderState ([1, 0, 0, 0, 0] @ rest) = Inr (zeroState\<lparr>Type := 1\<rparr>)"
  by (simp add: codec_defs zeroState_def)

lemma unmarshal_Buffer_Some:
  "length k = 32 \<Longrightarrow>
   unmarshalUpgradeableLoaderState ([1, 0, 0, 0, 1] @ k @ rest)
     = Inr (zeroState\<lparr>Type := 1, Buffer := \<lparr>AuthorityAddress = Some k\<rparr>\<rparr>)"
  by (simp add: codec_defs zeroState_def)

lemma unmarshal_Program:
  "length k = 32 \<Longrightarrow>
   unmarshalUpgradeableLoaderState ([2, 0, 0, 0] @ k @ rest)
     = Inr (zeroState\<lparr>Type := 2, Program := \<lparr>ProgramDataAddress = k\<rparr>\<rparr>)"
  by (simp add: codec_defs zeroState_def)

lemma unmarshal_ProgramData_Some:
  "length k = 32 \<Longrightarrow>
   unmarshalUpgradeableLoaderState ([3, 0, 0, 0, s, 0, 0, 0, 0, 0, 0, 0, 1] @ k @ rest)
     = Inr (zeroState\<lparr>Type := 3,
              ProgramData := \<lparr>Slot = ucast s, UpgradeAuthorityAddress = Some k\<rparr>\<rparr>)"
  by (simp add: codec_defs zeroState_def)

lemma unmarshal_too_short:
  "length d < 4 \<Longrightarrow> unmarshalUpgradeableLoaderState d = Inl (Err InstrErrInvalidAccountData)"
  by (simp add: codec_defs)

subsection \<open>The accessors on positions that exist\<close>

lemma CheckNum_ok:
  "n \<le> length (InstructionAccounts c) \<Longrightarrow> CheckNumOfInstructionAccounts c n = Inr ()"
  by (simp add: CheckNumOfInstructionAccounts_def)

lemma IndexOf_ok:
  "i < length (InstructionAccounts c) \<Longrightarrow>
   IndexOfInstructionAccountInTransaction c i = Inr (IndexInTransaction (InstructionAccounts c ! i))"
  by (simp add: IndexOfInstructionAccountInTransaction_def)

lemma IsSigner_ok:
  "i < length (InstructionAccounts c) \<Longrightarrow>
   IsInstructionAccountSigner c i = Inr (IsSigner (InstructionAccounts c ! i))"
  by (simp add: IsInstructionAccountSigner_def)

lemma KeyOf_ok: "i < length t \<Longrightarrow> KeyOfAccountAtIndex t i = Inr (Key (t ! i))"
  by (simp add: KeyOfAccountAtIndex_def)

lemma Borrow_ok:
  "i < length (InstructionAccounts c) \<Longrightarrow> IndexInTransaction (InstructionAccounts c ! i) < length t \<Longrightarrow>
   BorrowInstructionAccount c t i = Inr (IndexInTransaction (InstructionAccounts c ! i))"
  by (simp add: BorrowInstructionAccount_def IndexOf_ok)

subsection \<open>Example accounts\<close>

definition keyOf :: "byte \<Rightarrow> PublicKey" where
  "keyOf b = replicate 32 b"

definition loaderKey :: PublicKey where
  "loaderKey = keyOf 9"

definition mkAccount :: "PublicKey \<Rightarrow> u64 \<Rightarrow> byte list \<Rightarrow> bool \<Rightarrow> Account" where
  "mkAccount k l d x = \<lparr>Key = k, Lamports = l, Data = d, Owner = loaderKey, Executable = x\<rparr>"

definition mkInstrAccount :: "nat \<Rightarrow> bool \<Rightarrow> InstructionAccount" where
  "mkInstrAccount i s = \<lparr>IndexInTransaction = i, IsSigner = s, IsWritable = True\<rparr>"

text \<open>
  A buffer at position 0 and an authority with key \<open>keyOf 7\<close> at position 1, which
  signs or not; the loader itself at position 2.
\<close>

definition bufferTx :: "byte list \<Rightarrow> TransactionCtx" where
  "bufferTx d = [mkAccount (keyOf 5) 100 d False, mkAccount (keyOf 7) 0 [] False,
                 mkAccount loaderKey 1 [] True]"

definition bufferInstrCtx :: "bool \<Rightarrow> byte list \<Rightarrow> InstructionCtx" where
  "bufferInstrCtx signs instrData =
     \<lparr>ProgramAccounts = [2],
      InstructionAccounts = [mkInstrAccount 0 False, mkInstrAccount 1 signs],
      InstrData = instrData\<rparr>"

lemmas example_defs = keyOf_def loaderKey_def mkAccount_def mkInstrAccount_def
  bufferTx_def bufferInstrCtx_def

subsection \<open>The state codec\<close>

text \<open>
  C1: decoding, encoding and decoding again gives the first decoding back; the encoder
  writes the 4-byte tag and, for Buffer and ProgramData, the 1-byte authority flag.
  The encoder of the source writes neither. On the five bytes \<open>01 00 00 00 00\<close>, a
  Buffer without authority, it writes no byte at all, and decoding the empty result
  fails with InvalidAccountData.
\<close>

theorem C1_encoder_writes_no_tag:
  "unmarshalUpgradeableLoaderState [1, 0, 0, 0, 0] = Inr (zeroState\<lparr>Type := 1\<rparr>)
   \<and> marshalUpgradeableLoaderState (zeroState\<lparr>Type := 1\<rparr>) = Inr []
   \<and> unmarshalUpgradeableLoaderState [] = Inl (Err InstrErrInvalidAccountData)
   \<and> bindE (bindE (unmarshalUpgradeableLoaderState [1, 0, 0, 0, 0]) marshalUpgradeableLoaderState)
        unmarshalUpgradeableLoaderState
      \<noteq> unmarshalUpgradeableLoaderState [1, 0, 0, 0, 0]"
  by (simp add: codec_defs zeroState_def)

subsection \<open>What decoding needs and what encoding writes\<close>

lemma ReadBytes_Some: "ReadBytes n d = Some (x, r) \<Longrightarrow> length x = n \<and> n \<le> length d \<and> r = drop n d"
  by (auto simp: ReadBytes_def split: if_splits)

lemma ReadUint32_Some: "ReadUint32 d = Some (x, r) \<Longrightarrow> 4 \<le> length d \<and> r = drop 4 d"
  by (auto simp: ReadUint32_def dest!: ReadBytes_Some split: option.splits)

lemma ReadUint64_Some: "ReadUint64 d = Some (x, r) \<Longrightarrow> 8 \<le> length d \<and> r = drop 8 d"
  by (auto simp: ReadUint64_def dest!: ReadBytes_Some split: option.splits)

lemma ReadBool_Some: "ReadBool d = Some (x, r) \<Longrightarrow> 1 \<le> length d \<and> r = drop 1 d"
  by (auto simp: ReadBool_def split: list.splits)

text \<open>
  How many bytes the layout of a state takes (section 3 of the spec: tag, option flag,
  slot, key), and the keys of a state being 32 bytes long.
\<close>

definition layoutSize :: "UpgradeableLoaderState \<Rightarrow> nat" where
  "layoutSize st =
     (if Type st = UpgradeableLoaderStateTypeUninitialized then 4
      else if Type st = UpgradeableLoaderStateTypeBuffer
      then (if AuthorityAddress (Buffer st) = None then 5 else 37)
      else if Type st = UpgradeableLoaderStateTypeProgram then 36
      else (if UpgradeAuthorityAddress (ProgramData st) = None then 13 else 45))"

definition keysWellFormed :: "UpgradeableLoaderState \<Rightarrow> bool" where
  "keysWellFormed st =
     ((case AuthorityAddress (Buffer st) of None \<Rightarrow> True | Some k \<Rightarrow> length k = 32)
      \<and> length (ProgramDataAddress (Program st)) = 32
      \<and> (case UpgradeAuthorityAddress (ProgramData st) of None \<Rightarrow> True | Some k \<Rightarrow> length k = 32))"

lemma Buffer_Unmarshal_Some:
  assumes "UpgradeableLoaderStateBuffer_UnmarshalWithDecoder buf d = Some b"
    and "AuthorityAddress buf = None"
  shows "(AuthorityAddress b = None \<and> 1 \<le> length d)
       \<or> (\<exists>k. AuthorityAddress b = Some k \<and> length k = 32 \<and> 33 \<le> length d)"
proof (cases "ReadBool d")
  case None
  with assms show ?thesis by (simp add: UpgradeableLoaderStateBuffer_UnmarshalWithDecoder_def)
next
  case (Some a)
  obtain h r where a: "a = (h, r)" by (cases a)
  note rb = ReadBool_Some [OF Some [unfolded a]]
  show ?thesis
  proof (cases h)
    case False
    with assms Some a rb show ?thesis
      by (simp add: UpgradeableLoaderStateBuffer_UnmarshalWithDecoder_def)
  next
    case True
    with assms Some a obtain k r' where k: "ReadBytes PublicKeyLength r = Some (k, r')"
      and b: "b = buf\<lparr>AuthorityAddress := Some k\<rparr>"
      by (auto simp: UpgradeableLoaderStateBuffer_UnmarshalWithDecoder_def split: option.splits)
    from ReadBytes_Some [OF k] rb have "length k = 32" "33 \<le> length d"
      by (auto simp: PublicKeyLength_def)
    with b show ?thesis by simp
  qed
qed

lemma Program_Unmarshal_Some:
  assumes "UpgradeableLoaderStateProgram_UnmarshalWithDecoder p d = Some b"
  shows "length (ProgramDataAddress b) = 32 \<and> 32 \<le> length d"
proof -
  from assms obtain k r where k: "ReadBytes PublicKeyLength d = Some (k, r)"
    and b: "b = p\<lparr>ProgramDataAddress := k\<rparr>"
    by (auto simp: UpgradeableLoaderStateProgram_UnmarshalWithDecoder_def split: option.splits)
  from ReadBytes_Some [OF k] b show ?thesis by (simp add: PublicKeyLength_def)
qed

lemma ProgramData_Unmarshal_Some:
  assumes "UpgradeableLoaderStateProgramData_UnmarshalWithDecoder p d = Some b"
    and "UpgradeAuthorityAddress p = None"
  shows "(UpgradeAuthorityAddress b = None \<and> 9 \<le> length d)
       \<or> (\<exists>k. UpgradeAuthorityAddress b = Some k \<and> length k = 32 \<and> 41 \<le> length d)"
proof -
  from assms obtain s r where s: "ReadUint64 d = Some (s, r)"
    by (cases "ReadUint64 d") (auto simp: UpgradeableLoaderStateProgramData_UnmarshalWithDecoder_def)
  note r1 = ReadUint64_Some [OF s]
  from assms s obtain h r' where h: "ReadBool r = Some (h, r')"
    by (cases "ReadBool r") (auto simp: UpgradeableLoaderStateProgramData_UnmarshalWithDecoder_def)
  note r2 = ReadBool_Some [OF h]
  show ?thesis
  proof (cases h)
    case False
    with assms s h r1 r2 show ?thesis
      by (auto simp: UpgradeableLoaderStateProgramData_UnmarshalWithDecoder_def)
  next
    case True
    with assms s h obtain k r'' where k: "ReadBytes PublicKeyLength r' = Some (k, r'')"
      and b: "b = p\<lparr>Slot := s, UpgradeAuthorityAddress := Some k\<rparr>"
      by (auto simp: UpgradeableLoaderStateProgramData_UnmarshalWithDecoder_def split: option.splits)
    from ReadBytes_Some [OF k] r1 r2 have "length k = 32" "41 \<le> length d"
      by (auto simp: PublicKeyLength_def)
    with b show ?thesis by simp
  qed
qed

lemma unmarshal_Inr_layout:
  assumes "unmarshalUpgradeableLoaderState d = Inr st"
  shows "layoutSize st \<le> length d \<and> keysWellFormed st \<and> Type st \<in> {0, 1, 2, 3}"
proof -
  from assms have u: "UpgradeableLoaderState_UnmarshalWithDecoder zeroState d = Some st"
    by (simp add: unmarshalUpgradeableLoaderState_def split: option.splits)
  then obtain t r where rd: "ReadUint32 d = Some (t, r)"
    by (cases "ReadUint32 d") (auto simp: UpgradeableLoaderState_UnmarshalWithDecoder_def)
  note r0 = ReadUint32_Some [OF rd]
  note body = u [unfolded UpgradeableLoaderState_UnmarshalWithDecoder_def StateType_defs rd, simplified]
  have z: "AuthorityAddress (Buffer zeroState) = None"
    "UpgradeAuthorityAddress (ProgramData zeroState) = None"
    "length (ProgramDataAddress (Program zeroState)) = 32"
    by (simp_all add: zeroState_def zeroPublicKey_def)
  consider "t = 0" | "t = 1" | "t = 2" | "t = 3" | "t \<notin> {0, 1, 2, 3}" by auto
  then show ?thesis
  proof cases
    case 1
    with body r0 z show ?thesis
      by (auto simp: layoutSize_def keysWellFormed_def StateType_defs)
  next
    case 2
    with body obtain x where x: "UpgradeableLoaderStateBuffer_UnmarshalWithDecoder (Buffer zeroState) r = Some x"
      and st: "st = zeroState\<lparr>Type := 1, Buffer := x\<rparr>"
      by (auto split: option.splits)
    from Buffer_Unmarshal_Some [OF x z(1)] r0 st z show ?thesis
      by (auto simp: layoutSize_def keysWellFormed_def StateType_defs)
  next
    case 3
    with body obtain x where x: "UpgradeableLoaderStateProgram_UnmarshalWithDecoder (Program zeroState) r = Some x"
      and st: "st = zeroState\<lparr>Type := 2, Program := x\<rparr>"
      by (auto split: option.splits)
    from Program_Unmarshal_Some [OF x] r0 st z show ?thesis
      by (auto simp: layoutSize_def keysWellFormed_def StateType_defs)
  next
    case 4
    with body obtain x where x: "UpgradeableLoaderStateProgramData_UnmarshalWithDecoder (ProgramData zeroState) r = Some x"
      and st: "st = zeroState\<lparr>Type := 3, ProgramData := x\<rparr>"
      by (auto split: option.splits)
    from ProgramData_Unmarshal_Some [OF x z(2)] r0 st z show ?thesis
      by (auto simp: layoutSize_def keysWellFormed_def StateType_defs)
  next
    case 5
    with body show ?thesis by simp
  qed
qed

lemma marshal_shorter_than_layout:
  assumes "keysWellFormed st" and "Type st \<in> {0, 1, 2, 3}"
  shows "\<exists>bs. marshalUpgradeableLoaderState st = Inr bs \<and> length bs < layoutSize st"
  using assms
  by (auto simp: marshalUpgradeableLoaderState_def UpgradeableLoaderState_MarshalWithEncoder_def
      UpgradeableLoaderStateBuffer_MarshalWithEncoder_def
      UpgradeableLoaderStateProgram_MarshalWithEncoder_def
      UpgradeableLoaderStateProgramData_MarshalWithEncoder_def WriteUint64_def
      layoutSize_def keysWellFormed_def StateType_defs split: option.splits)

text \<open>
  The missing tag and flag make every encoding shorter than the layout its state decodes
  from: no state that decoding yields is what decoding its encoding yields.
\<close>

lemma marshal_then_unmarshal_never_returns_the_state:
  assumes "unmarshalUpgradeableLoaderState b = Inr st"
  shows "bindE (marshalUpgradeableLoaderState st) unmarshalUpgradeableLoaderState \<noteq> Inr st"
proof
  assume a: "bindE (marshalUpgradeableLoaderState st) unmarshalUpgradeableLoaderState = Inr st"
  from unmarshal_Inr_layout [OF assms] have "keysWellFormed st" "Type st \<in> {0, 1, 2, 3}" by simp_all
  from marshal_shorter_than_layout [OF this] obtain bs
    where m: "marshalUpgradeableLoaderState st = Inr bs" and l: "length bs < layoutSize st" by blast
  from a m have "unmarshalUpgradeableLoaderState bs = Inr st" by simp
  from unmarshal_Inr_layout [OF this] l show False by simp
qed

text \<open>Decoding looks at the first 45 bytes only.\<close>

lemma list_of_length_13:
  "length (xs :: 'a list) = 13 \<Longrightarrow>
   \<exists>x0 x1 x2 x3 x4 x5 x6 x7 x8 x9 x10 x11 x12.
     xs = [x0, x1, x2, x3, x4, x5, x6, x7, x8, x9, x10, x11, x12]"
  by (auto simp: numeral_eq_Suc length_Suc_conv)

lemma list_of_length_13_plus:
  assumes "13 \<le> length h"
  shows "\<exists>x0 x1 x2 x3 x4 x5 x6 x7 x8 x9 x10 x11 x12 k.
           h = [x0, x1, x2, x3, x4, x5, x6, x7, x8, x9, x10, x11, x12] @ k"
proof -
  have "length (take 13 h) = 13" using assms by simp
  from list_of_length_13 [OF this] obtain x0 x1 x2 x3 x4 x5 x6 x7 x8 x9 x10 x11 x12
    where "take 13 h = [x0, x1, x2, x3, x4, x5, x6, x7, x8, x9, x10, x11, x12]" by blast
  then have "h = [x0, x1, x2, x3, x4, x5, x6, x7, x8, x9, x10, x11, x12] @ drop 13 h"
    using append_take_drop_id [of 13 h] by simp
  then show ?thesis by blast
qed

lemma unmarshal_header_only:
  assumes "length h = 45"
  shows "unmarshalUpgradeableLoaderState (h @ r) = unmarshalUpgradeableLoaderState (h @ r')"
proof -
  from assms list_of_length_13_plus [of h] obtain x0 x1 x2 x3 x4 x5 x6 x7 x8 x9 x10 x11 x12 k
    where h: "h = [x0, x1, x2, x3, x4, x5, x6, x7, x8, x9, x10, x11, x12] @ k" by auto
  with assms have k: "length k = 32" by simp
  show ?thesis unfolding h using k
    by (simp add: unmarshalUpgradeableLoaderState_def UpgradeableLoaderState_UnmarshalWithDecoder_def
  UpgradeableLoaderStateBuffer_UnmarshalWithDecoder_def
  UpgradeableLoaderStateProgram_UnmarshalWithDecoder_def
  UpgradeableLoaderStateProgramData_UnmarshalWithDecoder_def
  ReadUint32_def ReadUint64_def ReadBytes_def ReadBool_def PublicKeyLength_def)
qed

subsection \<open>Write\<close>

lemma writeProgramData_effect:
  assumes b: "BorrowInstructionAccount instrCtx txCtx 0 = Inr i"
    and ld: "length (Data (txCtx ! i)) < 2 ^ 63"
    and lb: "length bs < 2 ^ 63"
  shows "writeProgramData instrCtx (of_nat upgradeableLoaderSizeOfBufferMetaData + ucast off) bs txCtx
     = (if length (Data (txCtx ! i)) < 37 + unat (off :: u32) + length bs
        then (Some (Err InstrErrAccountDataTooSmall), txCtx)
        else (None, txCtx[i := (txCtx ! i)\<lparr>Data :=
                take (37 + unat off) (Data (txCtx ! i)) @ bs
                @ drop (37 + unat off + length bs) (Data (txCtx ! i))\<rparr>]))"
proof -
  have o: "unat off < 2 ^ 32" using unsigned_less [of off] by simp
  have lb': "unat (of_nat (length bs) :: u64) = length bs"
    using lb by (simp add: unat_of_nat)
  have w: "unat (SaturatingAddU64 (of_nat upgradeableLoaderSizeOfBufferMetaData + ucast off)
                   (of_nat (length bs))) = 37 + unat off + length bs"
    using o lb by (simp add: unat_SaturatingAddU64 unat_write_offset lb')
  have ld': "length (Data (txCtx ! i)) < 2 ^ 64" using ld by simp
  show ?thesis
    using ld' by (simp add: writeProgramData_def b Let_def word_less_of_nat_len w
        unat_write_offset copy_into_def)
qed

text \<open>
  What Write does once the buffer is a Buffer whose authority is the key of instruction
  account 1 and that account signed. Slices of the source have fewer than \<open>2 ^ 63\<close>
  bytes, so that the saturating sum of the offsets is the sum.
\<close>

lemma UpgradeableLoaderWrite_effect:
  assumes n: "2 \<le> length (InstructionAccounts instrCtx)"
    and b: "IndexInTransaction (InstructionAccounts instrCtx ! 0) = b"
    and a: "IndexInTransaction (InstructionAccounts instrCtx ! 1) = a"
    and bl: "b < length txCtx" and al: "a < length txCtx"
    and st: "unmarshalUpgradeableLoaderState (Data (txCtx ! b)) = Inr st"
    and ty: "Type st = UpgradeableLoaderStateTypeBuffer"
    and au: "AuthorityAddress (Buffer st) = Some (Key (txCtx ! a))"
    and sg: "IsSigner (InstructionAccounts instrCtx ! 1)"
    and ld: "length (Data (txCtx ! b)) < 2 ^ 63"
    and lb: "length (Bytes write) < 2 ^ 63"
  shows "UpgradeableLoaderWrite instrCtx write txCtx
     = (if length (Data (txCtx ! b)) < 37 + unat (Offset write) + length (Bytes write)
        then (Some (Err InstrErrAccountDataTooSmall), txCtx)
        else (None, txCtx[b := (txCtx ! b)\<lparr>Data :=
                take (37 + unat (Offset write)) (Data (txCtx ! b)) @ Bytes write
                @ drop (37 + unat (Offset write) + length (Bytes write)) (Data (txCtx ! b))\<rparr>]))"
proof -
  have n0: "0 < length (InstructionAccounts instrCtx)" and n1: "1 < length (InstructionAccounts instrCtx)"
    using n by auto
  have c: "CheckNumOfInstructionAccounts instrCtx 2 = Inr ()"
    using n by (rule CheckNum_ok)
  have b0: "BorrowInstructionAccount instrCtx txCtx 0 = Inr b"
    using Borrow_ok [OF n0] b bl by simp
  have k1: "IndexOfInstructionAccountInTransaction instrCtx 1 = Inr a"
    using IndexOf_ok [OF n1] a by simp
  have s1: "IsInstructionAccountSigner instrCtx 1 = Inr True"
    using IsSigner_ok [OF n1] sg by simp
  have k: "KeyOfAccountAtIndex txCtx a = Inr (Key (txCtx ! a))"
    using al by (rule KeyOf_ok)
  show ?thesis
    by (simp add: UpgradeableLoaderWrite_def c b0 k1 s1 k st ty au
        writeProgramData_effect [OF b0 ld lb] del: One_nat_def)
qed

text \<open>
  C5: after a successful Write(offset, bytes) on a Buffer whose authority matches and
  signed, the buffer's data holds bytes at BufferMetaSize + offset and is unchanged
  everywhere else; and when BufferMetaSize + offset + len(bytes) exceeds the length of
  the buffer's data, Write fails with AccountDataTooSmall and changes no account.
\<close>

theorem C5_Write_copies_bytes_or_fails:
  assumes "2 \<le> length (InstructionAccounts instrCtx)"
    and "IndexInTransaction (InstructionAccounts instrCtx ! 0) = b"
    and "IndexInTransaction (InstructionAccounts instrCtx ! 1) = a"
    and "b < length txCtx" and "a < length txCtx"
    and "unmarshalUpgradeableLoaderState (Data (txCtx ! b)) = Inr st"
    and "Type st = UpgradeableLoaderStateTypeBuffer"
    and "AuthorityAddress (Buffer st) = Some (Key (txCtx ! a))"
    and "IsSigner (InstructionAccounts instrCtx ! 1)"
    and "length (Data (txCtx ! b)) < 2 ^ 63"
    and "length (Bytes write) < 2 ^ 63"
  shows "(\<forall>t. UpgradeableLoaderWrite instrCtx write txCtx = (None, t) \<longrightarrow>
            length (Data (t ! b)) = length (Data (txCtx ! b))
          \<and> take (length (Bytes write))
               (drop (upgradeableLoaderSizeOfBufferMetaData + unat (Offset write)) (Data (t ! b)))
              = Bytes write
          \<and> take (upgradeableLoaderSizeOfBufferMetaData + unat (Offset write)) (Data (t ! b))
              = take (upgradeableLoaderSizeOfBufferMetaData + unat (Offset write)) (Data (txCtx ! b))
          \<and> drop (upgradeableLoaderSizeOfBufferMetaData + unat (Offset write) + length (Bytes write))
               (Data (t ! b))
              = drop (upgradeableLoaderSizeOfBufferMetaData + unat (Offset write) + length (Bytes write))
                  (Data (txCtx ! b)))
       \<and> (length (Data (txCtx ! b))
             < upgradeableLoaderSizeOfBufferMetaData + unat (Offset write) + length (Bytes write)
           \<longrightarrow> UpgradeableLoaderWrite instrCtx write txCtx
                 = (Some (Err InstrErrAccountDataTooSmall), txCtx))"
  using assms(4)
  by (auto simp: UpgradeableLoaderWrite_effect [OF assms] upgradeableLoaderSizeOfBufferMetaData_def
      split: if_splits)

text \<open>
  The buffer of 37 + 4 bytes with authority \<open>keyOf 7\<close>: writing DE AD BE EF at offset
  0 succeeds and the four bytes are read back; writing four bytes at offset 2 needs 43
  bytes and fails.
\<close>

theorem C5_Write_copies_bytes_or_fails_witness:
  "UpgradeableLoaderWrite (bufferInstrCtx True []) \<lparr>Offset = 0, Bytes = [0xDE, 0xAD, 0xBE, 0xEF]\<rparr>
     (bufferTx ([1, 0, 0, 0, 1] @ keyOf 7 @ [0, 0, 0, 0]))
     = (None, bufferTx ([1, 0, 0, 0, 1] @ keyOf 7 @ [0xDE, 0xAD, 0xBE, 0xEF]))
   \<and> take 4 (drop 37 (Data (bufferTx ([1, 0, 0, 0, 1] @ keyOf 7 @ [0xDE, 0xAD, 0xBE, 0xEF]) ! 0)))
       = [0xDE, 0xAD, 0xBE, 0xEF]
   \<and> UpgradeableLoaderWrite (bufferInstrCtx True []) \<lparr>Offset = 2, Bytes = [0xAA, 0xBB, 0xCC, 0xDD]\<rparr>
       (bufferTx ([1, 0, 0, 0, 1] @ keyOf 7 @ [0, 0, 0, 0]))
       = (Some (Err InstrErrAccountDataTooSmall), bufferTx ([1, 0, 0, 0, 1] @ keyOf 7 @ [0, 0, 0, 0]))"
proof -
  let ?c = "bufferInstrCtx True []"
  let ?t = "bufferTx ([1, 0, 0, 0, 1] @ keyOf 7 @ [0, 0, 0, 0])"
  let ?st = "zeroState\<lparr>Type := 1, Buffer := \<lparr>AuthorityAddress = Some (keyOf 7)\<rparr>\<rparr>"
  have h1: "2 \<le> length (InstructionAccounts ?c)" by (simp add: example_defs)
  have h2: "IndexInTransaction (InstructionAccounts ?c ! 0) = 0" by (simp add: example_defs)
  have h3: "IndexInTransaction (InstructionAccounts ?c ! 1) = 1" by (simp add: example_defs)
  have h4: "0 < length ?t" and h5: "1 < length ?t" by (simp_all add: example_defs)
  have h6: "unmarshalUpgradeableLoaderState (Data (?t ! 0)) = Inr ?st"
    using unmarshal_Buffer_Some [of "keyOf 7" "[0, 0, 0, 0]"] by (simp add: example_defs)
  have h7: "Type ?st = UpgradeableLoaderStateTypeBuffer" by (simp add: StateType_defs)
  have h8: "AuthorityAddress (Buffer ?st) = Some (Key (?t ! 1))" by (simp add: example_defs)
  have h9: "IsSigner (InstructionAccounts ?c ! 1)" by (simp add: example_defs)
  have h10: "length (Data (?t ! 0)) < 2 ^ 63" by (simp add: example_defs)
  have ok: "UpgradeableLoaderWrite ?c \<lparr>Offset = 0, Bytes = [0xDE, 0xAD, 0xBE, 0xEF]\<rparr> ?t
     = (None, bufferTx ([1, 0, 0, 0, 1] @ keyOf 7 @ [0xDE, 0xAD, 0xBE, 0xEF]))"
    using UpgradeableLoaderWrite_effect [OF h1 h2 h3 h4 h5 h6 h7 h8 h9 h10,
        of "\<lparr>Offset = 0, Bytes = [0xDE, 0xAD, 0xBE, 0xEF]\<rparr>"]
    by (simp add: example_defs)
  have r1: "take 4 (drop 37 (Data (bufferTx ([1, 0, 0, 0, 1] @ keyOf 7 @ [0xDE, 0xAD, 0xBE, 0xEF]) ! 0)))
       = [0xDE, 0xAD, 0xBE, 0xEF]"
    using C5_Write_copies_bytes_or_fails [OF h1 h2 h3 h4 h5 h6 h7 h8 h9 h10,
        of "\<lparr>Offset = 0, Bytes = [0xDE, 0xAD, 0xBE, 0xEF]\<rparr>"] ok
    by (simp add: upgradeableLoaderSizeOfBufferMetaData_def example_defs)
  have r2: "UpgradeableLoaderWrite ?c \<lparr>Offset = 2, Bytes = [0xAA, 0xBB, 0xCC, 0xDD]\<rparr> ?t
       = (Some (Err InstrErrAccountDataTooSmall), ?t)"
    using C5_Write_copies_bytes_or_fails [OF h1 h2 h3 h4 h5 h6 h7 h8 h9 h10,
        of "\<lparr>Offset = 2, Bytes = [0xAA, 0xBB, 0xCC, 0xDD]\<rparr>"]
    by (simp add: example_defs upgradeableLoaderSizeOfBufferMetaData_def)
  show ?thesis using ok r1 r2 by simp
qed

text \<open>
  C7: a Write on an account whose state is Buffer fails with Immutable when the buffer
  has no authority, else with IncorrectAuthority when the authority is not the key of
  instruction account 1, else with MissingRequiredSignature when that account did not
  sign; a Write on an account whose state is not Buffer (another tag, or data that does
  not decode) fails with InvalidAccountData. No account is changed.
\<close>

theorem C7_Write_authority_errors:
  assumes n: "2 \<le> length (InstructionAccounts instrCtx)"
    and i0: "IndexInTransaction (InstructionAccounts instrCtx ! 0) = b" "b < length txCtx"
    and i1: "IndexInTransaction (InstructionAccounts instrCtx ! 1) = a"
  shows "(\<forall>st. unmarshalUpgradeableLoaderState (Data (txCtx ! b)) = Inr st
            \<and> Type st = UpgradeableLoaderStateTypeBuffer \<and> AuthorityAddress (Buffer st) = None
            \<longrightarrow> UpgradeableLoaderWrite instrCtx write txCtx = (Some (Err InstrErrImmutable), txCtx))
       \<and> (\<forall>st k. unmarshalUpgradeableLoaderState (Data (txCtx ! b)) = Inr st
            \<and> Type st = UpgradeableLoaderStateTypeBuffer \<and> AuthorityAddress (Buffer st) = Some k
            \<and> a < length txCtx \<and> k \<noteq> Key (txCtx ! a)
            \<longrightarrow> UpgradeableLoaderWrite instrCtx write txCtx
                  = (Some (Err InstrErrIncorrectAuthority), txCtx))
       \<and> (\<forall>st. unmarshalUpgradeableLoaderState (Data (txCtx ! b)) = Inr st
            \<and> Type st = UpgradeableLoaderStateTypeBuffer
            \<and> a < length txCtx \<and> AuthorityAddress (Buffer st) = Some (Key (txCtx ! a))
            \<and> \<not> IsSigner (InstructionAccounts instrCtx ! 1)
            \<longrightarrow> UpgradeableLoaderWrite instrCtx write txCtx
                  = (Some (Err InstrErrMissingRequiredSignature), txCtx))
       \<and> (\<forall>st. unmarshalUpgradeableLoaderState (Data (txCtx ! b)) = Inr st
            \<and> Type st \<noteq> UpgradeableLoaderStateTypeBuffer
            \<longrightarrow> UpgradeableLoaderWrite instrCtx write txCtx
                  = (Some (Err InstrErrInvalidAccountData), txCtx))
       \<and> (\<forall>e. unmarshalUpgradeableLoaderState (Data (txCtx ! b)) = Inl e
            \<longrightarrow> UpgradeableLoaderWrite instrCtx write txCtx
                  = (Some (Err InstrErrInvalidAccountData), txCtx))"
proof -
  have n0: "0 < length (InstructionAccounts instrCtx)" and n1: "1 < length (InstructionAccounts instrCtx)"
    using n by auto
  have c: "CheckNumOfInstructionAccounts instrCtx 2 = Inr ()"
    using n by (rule CheckNum_ok)
  have b0: "BorrowInstructionAccount instrCtx txCtx 0 = Inr b"
    using Borrow_ok [OF n0] i0 by simp
  have k1: "IndexOfInstructionAccountInTransaction instrCtx 1 = Inr a"
    using IndexOf_ok [OF n1] i1 by simp
  have e: "unmarshalUpgradeableLoaderState d = Inl x \<Longrightarrow> x = Err InstrErrInvalidAccountData" for d x
    by (simp add: unmarshalUpgradeableLoaderState_def split: option.splits)
  show ?thesis
    by (auto simp: UpgradeableLoaderWrite_def c b0 k1 IsSigner_ok [OF n1]
        KeyOfAccountAtIndex_def dest: e simp del: One_nat_def)
qed

text \<open>
  The five cases on the example buffer: no authority; authority \<open>keyOf 8\<close> against the
  account key \<open>keyOf 7\<close>; the right authority, unsigned; an Uninitialized account;
  an account with the unknown tag 9.
\<close>

theorem C7_Write_authority_errors_witness:
  "UpgradeableLoaderWrite (bufferInstrCtx True []) \<lparr>Offset = 0, Bytes = []\<rparr>
     (bufferTx ([1, 0, 0, 0, 0] @ replicate 36 0))
     = (Some (Err InstrErrImmutable), bufferTx ([1, 0, 0, 0, 0] @ replicate 36 0))
   \<and> UpgradeableLoaderWrite (bufferInstrCtx True []) \<lparr>Offset = 0, Bytes = []\<rparr>
       (bufferTx ([1, 0, 0, 0, 1] @ keyOf 8 @ [0, 0, 0, 0]))
     = (Some (Err InstrErrIncorrectAuthority), bufferTx ([1, 0, 0, 0, 1] @ keyOf 8 @ [0, 0, 0, 0]))
   \<and> UpgradeableLoaderWrite (bufferInstrCtx False []) \<lparr>Offset = 0, Bytes = []\<rparr>
       (bufferTx ([1, 0, 0, 0, 1] @ keyOf 7 @ [0, 0, 0, 0]))
     = (Some (Err InstrErrMissingRequiredSignature),
        bufferTx ([1, 0, 0, 0, 1] @ keyOf 7 @ [0, 0, 0, 0]))
   \<and> UpgradeableLoaderWrite (bufferInstrCtx True []) \<lparr>Offset = 0, Bytes = []\<rparr>
       (bufferTx ([0, 0, 0, 0] @ replicate 37 0))
     = (Some (Err InstrErrInvalidAccountData), bufferTx ([0, 0, 0, 0] @ replicate 37 0))
   \<and> UpgradeableLoaderWrite (bufferInstrCtx True []) \<lparr>Offset = 0, Bytes = []\<rparr>
       (bufferTx [9, 0, 0, 0])
     = (Some (Err InstrErrInvalidAccountData), bufferTx [9, 0, 0, 0])"
proof -
  let ?w = "\<lparr>Offset = 0, Bytes = []\<rparr>"
  have n: "2 \<le> length (InstructionAccounts (bufferInstrCtx s []))" for s
    by (simp add: example_defs)
  have i0: "IndexInTransaction (InstructionAccounts (bufferInstrCtx s []) ! 0) = 0" for s
    by (simp add: example_defs)
  have l0: "0 < length (bufferTx d)" and l1: "1 < length (bufferTx d)" for d
    by (simp_all add: example_defs)
  have i1: "IndexInTransaction (InstructionAccounts (bufferInstrCtx s []) ! 1) = 1" for s
    by (simp add: example_defs)
  have d: "Data (bufferTx d ! 0) = d" and k: "Key (bufferTx d ! 1) = keyOf 7" for d
    by (simp_all add: example_defs)
  have s1: "unmarshalUpgradeableLoaderState ([1, 0, 0, 0, 0] @ replicate 36 0)
      = Inr (zeroState\<lparr>Type := 1\<rparr>)"
    by (rule unmarshal_Buffer_None)
  have s2: "unmarshalUpgradeableLoaderState ([1, 0, 0, 0, 1] @ keyOf 8 @ [0, 0, 0, 0])
      = Inr (zeroState\<lparr>Type := 1, Buffer := \<lparr>AuthorityAddress = Some (keyOf 8)\<rparr>\<rparr>)"
    by (rule unmarshal_Buffer_Some) (simp add: keyOf_def)
  have s3: "unmarshalUpgradeableLoaderState ([1, 0, 0, 0, 1] @ keyOf 7 @ [0, 0, 0, 0])
      = Inr (zeroState\<lparr>Type := 1, Buffer := \<lparr>AuthorityAddress = Some (keyOf 7)\<rparr>\<rparr>)"
    by (rule unmarshal_Buffer_Some) (simp add: keyOf_def)
  have s4: "unmarshalUpgradeableLoaderState ([0, 0, 0, 0] @ replicate 37 0) = Inr zeroState"
    by (rule unmarshal_Uninitialized)
  have s5: "unmarshalUpgradeableLoaderState [9, 0, 0, 0] = Inl (Err InstrErrInvalidAccountData)"
    by (simp add: codec_defs)
  have r1: "UpgradeableLoaderWrite (bufferInstrCtx True []) ?w (bufferTx ([1, 0, 0, 0, 0] @ replicate 36 0))
     = (Some (Err InstrErrImmutable), bufferTx ([1, 0, 0, 0, 0] @ replicate 36 0))"
    using C7_Write_authority_errors [OF n [of True] i0 [of True] l0 [of "[1, 0, 0, 0, 0] @ replicate 36 0"] i1 [of True], of ?w]
      s1 unfolding d by (simp add: StateType_defs zeroState_def)
  have r2: "UpgradeableLoaderWrite (bufferInstrCtx True []) ?w
       (bufferTx ([1, 0, 0, 0, 1] @ keyOf 8 @ [0, 0, 0, 0]))
     = (Some (Err InstrErrIncorrectAuthority), bufferTx ([1, 0, 0, 0, 1] @ keyOf 8 @ [0, 0, 0, 0]))"
    using C7_Write_authority_errors [OF n [of True] i0 [of True] l0 [of "[1, 0, 0, 0, 1] @ keyOf 8 @ [0, 0, 0, 0]"] i1 [of True], of ?w] s2 l1
    unfolding d k by (simp add: StateType_defs keyOf_def)
  have r3: "UpgradeableLoaderWrite (bufferInstrCtx False []) ?w
       (bufferTx ([1, 0, 0, 0, 1] @ keyOf 7 @ [0, 0, 0, 0]))
     = (Some (Err InstrErrMissingRequiredSignature),
        bufferTx ([1, 0, 0, 0, 1] @ keyOf 7 @ [0, 0, 0, 0]))"
    using C7_Write_authority_errors [OF n [of False] i0 [of False] l0 [of "[1, 0, 0, 0, 1] @ keyOf 7 @ [0, 0, 0, 0]"] i1 [of False], of ?w] s3 l1
    unfolding d k by (simp add: StateType_defs example_defs)
  have r4: "UpgradeableLoaderWrite (bufferInstrCtx True []) ?w (bufferTx ([0, 0, 0, 0] @ replicate 37 0))
     = (Some (Err InstrErrInvalidAccountData), bufferTx ([0, 0, 0, 0] @ replicate 37 0))"
    using C7_Write_authority_errors [OF n [of True] i0 [of True] l0 [of "[0, 0, 0, 0] @ replicate 37 0"] i1 [of True], of ?w]
      s4 unfolding d by (simp add: StateType_defs zeroState_def)
  have r5: "UpgradeableLoaderWrite (bufferInstrCtx True []) ?w (bufferTx [9, 0, 0, 0])
     = (Some (Err InstrErrInvalidAccountData), bufferTx [9, 0, 0, 0])"
    using C7_Write_authority_errors [OF n [of True] i0 [of True] l0 [of "[9, 0, 0, 0]"] i1 [of True], of ?w]
      s5 unfolding d by simp
  show ?thesis using r1 r2 r3 r4 r5 by simp
qed

subsection \<open>InitializeBuffer\<close>




subsection \<open>Example accounts for Upgrade\<close>

text \<open>
  The seven instruction accounts of Upgrade in the order of section 4.6, at the
  positions 0 to 6 of the transaction, and the loader at position 7. The authority has
  the key \<open>keyOf 7\<close> and signs; the program points at the program data account.
\<close>

definition upgradeExecCtx :: "u64 \<Rightarrow> u64 \<Rightarrow> ExecutionCtx" where
  "upgradeExecCtx slot minBalance =
     \<lparr>Rent_MinimumBalance = (\<lambda>n. minBalance), Clock_Slot = slot,
      SysvarRentAddr = keyOf 10, SysvarClockAddr = keyOf 11,
      DeprecateExecutableMetaUpdateInBpfLoader = False,
      MaxPermittedDataLength = 10485760,
      FindProgramAddress = (\<lambda>seeds programId. (keyOf 1, 255)),
      CreateProgramAddress = (\<lambda>seeds programId. Some (keyOf 1)),
      NativeInvoke = (\<lambda>instr signers t. (None, t))\<rparr>"

definition upgradeTx :: "byte list \<Rightarrow> u64 \<Rightarrow> byte list \<Rightarrow> u64 \<Rightarrow> u64 \<Rightarrow> TransactionCtx" where
  "upgradeTx pdData pdLamports bufData bufLamports spillLamports =
     [mkAccount (keyOf 1) pdLamports pdData False,
      mkAccount (keyOf 2) 10 ([2, 0, 0, 0] @ keyOf 1) True,
      mkAccount (keyOf 3) bufLamports bufData False,
      mkAccount (keyOf 4) spillLamports [] False,
      mkAccount (keyOf 10) 1 [] False,
      mkAccount (keyOf 11) 1 [] False,
      mkAccount (keyOf 7) 0 [] False,
      mkAccount loaderKey 1 [] True]"

definition upgradeInstrCtx :: InstructionCtx where
  "upgradeInstrCtx =
     \<lparr>ProgramAccounts = [7],
      InstructionAccounts =
        [mkInstrAccount 0 False, mkInstrAccount 1 False, mkInstrAccount 2 False,
         mkInstrAccount 3 False, mkInstrAccount 4 False, mkInstrAccount 5 False,
         mkInstrAccount 6 True],
      InstrData = [3, 0, 0, 0]\<rparr>"

definition programDataBytes :: "byte \<Rightarrow> byte list \<Rightarrow> byte list" where
  "programDataBytes slot payload =
     [3, 0, 0, 0, slot, 0, 0, 0, 0, 0, 0, 0, 1] @ keyOf 7 @ payload"

definition bufferBytes :: "byte list \<Rightarrow> byte list" where
  "bufferBytes payload = [1, 0, 0, 0, 1] @ keyOf 7 @ payload"

lemmas upgrade_example_defs = upgradeExecCtx_def upgradeTx_def upgradeInstrCtx_def
  programDataBytes_def bufferBytes_def keyOf_def loaderKey_def mkAccount_def mkInstrAccount_def

lemmas handler_defs =
  CheckNumOfInstructionAccounts_def IndexOfInstructionAccountInTransaction_def
  KeyOfAccountAtIndex_def IsInstructionAccountSigner_def IsInstructionAccountWritable_def
  BorrowInstructionAccount_def LastProgramKey_def checkAcctForSysvar_def
  SetState_def SetLamports_def CheckedAddLamports_def SetDataLength_def SetExecutable_def
  copy_into_def setUpgradeableLoaderAccountState_def
  upgradeableLoaderSizeOfBufferMetaData_def upgradeableLoaderSizeOfProgram_def
  upgradeableLoaderSizeOfProgramDataMetaData_def upgradeableLoaderSizeOfProgramData_def
  upgradeableLoaderSizeOfBuffer_def SaturatingAddU64_def SaturatingSubU64_def

lemma upgrade_example_checks:
  "UpgradeableLoaderUpgrade_checks (upgradeExecCtx 42 0) upgradeInstrCtx
     (upgradeTx (programDataBytes 41 [0xDE, 0xAD, 0xBE, 0xEF]) 5 (bufferBytes [1, 2]) 3 0)
   = Inr \<lparr>authorityKey = keyOf 7, buffer = 2, bufferLamports = 3, bufferDataLen = 2,
          programData = 0, programDataBalanceRequired = 1\<rparr>"
  by (simp add: UpgradeableLoaderUpgrade_checks_def handler_defs codec_defs zeroState_def
      upgrade_example_defs Let_def)

subsection \<open>Upgrade: what the checks establish\<close>

lemma bindE_Inr_iff: "(bindE m f = Inr y) = (\<exists>x. m = Inr x \<and> f x = Inr y)"
  by (cases m) auto

lemma bindS_None_iff: "(bindS m t f = (None, t')) = (\<exists>x. m = Inr x \<and> f x = (None, t'))"
  by (cases m) auto

lemma thenS_None_iff: "(thenS r f = (None, t')) = (\<exists>t1. r = (None, t1) \<and> f t1 = (None, t'))"
  by (cases r; cases "fst r") auto

lemma nilDeref_Inr_iff: "(nilDeref m = Inr x) = (m = Inr x)"
  by (cases m) auto

lemma CheckNum_Inr_iff:
  "(CheckNumOfInstructionAccounts c n = Inr u) = (n \<le> length (InstructionAccounts c))"
  by (auto simp: CheckNumOfInstructionAccounts_def)

lemma IndexOf_Inr_iff:
  "(IndexOfInstructionAccountInTransaction c i = Inr k)
   = (i < length (InstructionAccounts c) \<and> k = IndexInTransaction (InstructionAccounts c ! i))"
  by (auto simp: IndexOfInstructionAccountInTransaction_def)

lemma Borrow_Inr_iff:
  "(BorrowInstructionAccount c t i = Inr k)
   = (i < length (InstructionAccounts c) \<and> k = IndexInTransaction (InstructionAccounts c ! i)
      \<and> k < length t)"
  by (auto simp: BorrowInstructionAccount_def bindE_Inr_iff IndexOf_Inr_iff)

lemma KeyOf_Inr_iff: "(KeyOfAccountAtIndex t i = Inr k) = (i < length t \<and> k = Key (t ! i))"
  by (auto simp: KeyOfAccountAtIndex_def)

lemma IsSigner_Inr_iff:
  "(IsInstructionAccountSigner c i = Inr s)
   = (i < length (InstructionAccounts c) \<and> s = IsSigner (InstructionAccounts c ! i))"
  by (auto simp: IsInstructionAccountSigner_def)

lemma UpgradeableLoaderUpgrade_checks_Inr:
  assumes "UpgradeableLoaderUpgrade_checks execCtx instrCtx txCtx = Inr l"
  shows "7 \<le> length (InstructionAccounts instrCtx)
       \<and> programData l = IndexInTransaction (InstructionAccounts instrCtx ! 0)
       \<and> programData l < length txCtx
       \<and> buffer l = IndexInTransaction (InstructionAccounts instrCtx ! 2)
       \<and> buffer l < length txCtx
       \<and> bufferLamports l = Lamports (txCtx ! buffer l)
       \<and> programDataBalanceRequired l
           = (if Rent_MinimumBalance execCtx (of_nat (length (Data (txCtx ! programData l)))) > 1
              then Rent_MinimumBalance execCtx (of_nat (length (Data (txCtx ! programData l))))
              else 1)
       \<and> \<not> SaturatingAddU64 (Lamports (txCtx ! programData l)) (Lamports (txCtx ! buffer l))
             < programDataBalanceRequired l
       \<and> authorityKey l = Key (txCtx ! IndexInTransaction (InstructionAccounts instrCtx ! 6))
       \<and> (\<exists>bufferState.
             unmarshalUpgradeableLoaderState (Data (txCtx ! buffer l)) = Inr bufferState
             \<and> Type bufferState = UpgradeableLoaderStateTypeBuffer
             \<and> AuthorityAddress (Buffer bufferState) = Some (authorityKey l))
       \<and> upgradeableLoaderSizeOfBufferMetaData \<le> length (Data (txCtx ! buffer l))
       \<and> bufferDataLen l
           = SaturatingSubU64 (of_nat (length (Data (txCtx ! buffer l))))
               (of_nat upgradeableLoaderSizeOfBufferMetaData)"
  using assms unfolding UpgradeableLoaderUpgrade_checks_def
  by (auto simp: bindE_Inr_iff nilDeref_Inr_iff CheckNum_Inr_iff IndexOf_Inr_iff Borrow_Inr_iff
      KeyOf_Inr_iff IsSigner_Inr_iff Let_def split: if_splits)


lemma UpgradeableLoaderUpgrade_programData_state_Inr:
  assumes "UpgradeableLoaderUpgrade_programData_state execCtx instrCtx l txCtx = Inr u"
  shows "\<exists>programDataState.
           unmarshalUpgradeableLoaderState (Data (txCtx ! programData l)) = Inr programDataState
           \<and> Type programDataState = UpgradeableLoaderStateTypeProgramData
           \<and> Slot (ProgramData programDataState) \<noteq> Clock_Slot execCtx
           \<and> UpgradeAuthorityAddress (ProgramData programDataState) = Some (authorityKey l)"
  using assms unfolding UpgradeableLoaderUpgrade_programData_state_def
  by (auto simp: bindE_Inr_iff split: if_splits option.splits)

text \<open>One account cannot pass for the buffer and for the program data.\<close>

lemma UpgradeableLoaderUpgrade_programData_not_buffer:
  assumes "UpgradeableLoaderUpgrade_checks execCtx instrCtx txCtx = Inr l"
    and "UpgradeableLoaderUpgrade_programData_state execCtx instrCtx l txCtx = Inr u"
  shows "programData l \<noteq> buffer l"
proof
  assume e: "programData l = buffer l"
  from UpgradeableLoaderUpgrade_checks_Inr [OF assms(1)] obtain bs
    where "unmarshalUpgradeableLoaderState (Data (txCtx ! buffer l)) = Inr bs"
      and "Type bs = UpgradeableLoaderStateTypeBuffer" by blast
  moreover from UpgradeableLoaderUpgrade_programData_state_Inr [OF assms(2)] obtain ps
    where "unmarshalUpgradeableLoaderState (Data (txCtx ! programData l)) = Inr ps"
      and "Type ps = UpgradeableLoaderStateTypeProgramData" by blast
  ultimately show False using e by (simp add: StateType_defs)
qed

subsection \<open>Upgrade: what the writes leave\<close>

text \<open>
  The new state of line 824 has the tag of the zero value, Uninitialized, for which the
  encoder writes nothing: setting it leaves the account as it is.
\<close>

lemma setUpgradeableLoaderAccountState_zero_tag:
  "setUpgradeableLoaderAccountState p (zeroState\<lparr>ProgramData := x\<rparr>) t = (None, t)"
  by (simp add: setUpgradeableLoaderAccountState_def codec_defs zeroState_def SetState_def)

lemma UpgradeableLoaderUpgrade_writes_lamports:
  assumes w: "UpgradeableLoaderUpgrade_writes execCtx instrCtx l txCtx = (None, t')"
    and pl: "programData l < length txCtx" and bl: "buffer l < length txCtx"
    and sp: "IndexInTransaction (InstructionAccounts instrCtx ! 3) = spill"
    and d: "programData l \<noteq> buffer l" "spill \<noteq> programData l" "spill \<noteq> buffer l"
  shows "Lamports (t' ! buffer l) = 0
       \<and> Lamports (t' ! programData l) = programDataBalanceRequired l
       \<and> Lamports (t' ! spill)
           = Lamports (txCtx ! spill)
             + SaturatingSubU64
                 (SaturatingAddU64 (Lamports (txCtx ! programData l)) (bufferLamports l))
                 (programDataBalanceRequired l)
       \<and> unat (Lamports (txCtx ! spill))
           + unat (SaturatingSubU64
                 (SaturatingAddU64 (Lamports (txCtx ! programData l)) (bufferLamports l))
                 (programDataBalanceRequired l)) < 2 ^ 64"
  using w pl bl sp d unfolding UpgradeableLoaderUpgrade_writes_def
  by (auto simp: setUpgradeableLoaderAccountState_zero_tag thenS_None_iff bindS_None_iff
      Borrow_Inr_iff Let_def CheckedAddLamports_def SetLamports_def SetDataLength_def
      split: if_splits option.splits)

subsection \<open>Upgrade\<close>

lemma replicate_2: "replicate 2 x = [x, x]"
  by (simp add: numeral_2_eq_2)

lemma if_less_max: "(if (1 :: u64) < x then x else 1) = max 1 x"
  by (auto simp: max_def)

text \<open>
  C6 as stated: a successful Upgrade conserves the lamports of program data, spill and
  buffer, sets the buffer's lamports to 0 and the program data's to the rent
  MinimumBalance of its data length. With a rent whose minimum balance is 0, a program
  data account holding \<open>2 ^ 64 - 1\<close> lamports and a buffer holding 1, the Upgrade
  succeeds, the program data is left with 1 lamport and not 0, and the three accounts
  together hold one lamport less than before: the sum of the two balances saturates.
\<close>

theorem C6_Upgrade_lamports_counterexample:
  "UpgradeableLoaderUpgrade (upgradeExecCtx 42 0) upgradeInstrCtx
     (upgradeTx (programDataBytes 41 [0xDE, 0xAD, 0xBE, 0xEF]) 18446744073709551615
        (bufferBytes [1, 2]) 1 0)
   = (None, upgradeTx (programDataBytes 41 [1, 2, 0, 0]) 1 (bufferBytes []) 0 18446744073709551614)
   \<and> Rent_MinimumBalance (upgradeExecCtx 42 0)
        (of_nat (length (programDataBytes 41 [0xDE, 0xAD, 0xBE, 0xEF]))) = 0
   \<and> Lamports (upgradeTx (programDataBytes 41 [1, 2, 0, 0]) 1 (bufferBytes []) 0
                  18446744073709551614 ! 0) = 1
   \<and> uint (1 :: u64) + uint (18446744073709551614 :: u64) + uint (0 :: u64)
       \<noteq> uint (18446744073709551615 :: u64) + uint (0 :: u64) + uint (1 :: u64)"
  by (simp add: UpgradeableLoaderUpgrade_def UpgradeableLoaderUpgrade_checks_def
      UpgradeableLoaderUpgrade_programData_state_def UpgradeableLoaderUpgrade_writes_def
      handler_defs codec_defs zeroState_def upgrade_example_defs Let_def replicate_2)

text \<open>
  C6 as amended: when the spill is neither the program data account nor the buffer
  account and the program data's and the buffer's lamports together are below
  \<open>2 ^ 64\<close>, a successful Upgrade sets the buffer's lamports to 0 and the
  program data's to the larger of 1 and the rent MinimumBalance of its data length,
  which the two balances together covered, and the three accounts together hold as
  many lamports as before.
\<close>

theorem C6_Upgrade_lamports:
  assumes ok: "UpgradeableLoaderUpgrade execCtx instrCtx txCtx = (None, t')"
    and pd: "IndexInTransaction (InstructionAccounts instrCtx ! 0) = pd"
    and buf: "IndexInTransaction (InstructionAccounts instrCtx ! 2) = buf"
    and sp: "IndexInTransaction (InstructionAccounts instrCtx ! 3) = spill"
    and d: "spill \<noteq> pd" "spill \<noteq> buf"
    and nosat: "unat (Lamports (txCtx ! pd)) + unat (Lamports (txCtx ! buf)) < 2 ^ 64"
  shows "Lamports (t' ! buf) = 0
       \<and> Lamports (t' ! pd)
           = max 1 (Rent_MinimumBalance execCtx (of_nat (length (Data (txCtx ! pd)))))
       \<and> unat (Lamports (t' ! pd)) \<le> unat (Lamports (txCtx ! pd)) + unat (Lamports (txCtx ! buf))
       \<and> unat (Lamports (t' ! pd)) + unat (Lamports (t' ! spill)) + unat (Lamports (t' ! buf))
           = unat (Lamports (txCtx ! pd)) + unat (Lamports (txCtx ! spill))
             + unat (Lamports (txCtx ! buf))"
proof -
  from ok obtain l u where c: "UpgradeableLoaderUpgrade_checks execCtx instrCtx txCtx = Inr l"
    and s: "UpgradeableLoaderUpgrade_programData_state execCtx instrCtx l txCtx = Inr u"
    and w: "UpgradeableLoaderUpgrade_writes execCtx instrCtx l txCtx = (None, t')"
    by (auto simp: UpgradeableLoaderUpgrade_def bindS_None_iff)
  note f = UpgradeableLoaderUpgrade_checks_Inr [OF c]
  have pdl: "programData l = pd" and bufl: "buffer l = buf" using f pd buf by simp_all
  have pl: "programData l < length txCtx" and bl: "buffer l < length txCtx" using f by simp_all
  have bL: "bufferLamports l = Lamports (txCtx ! buf)" using f bufl by simp
  let ?r = "programDataBalanceRequired l"
  let ?P = "Lamports (txCtx ! pd)" and ?B = "Lamports (txCtx ! buf)"
  have "?r = (if 1 < Rent_MinimumBalance execCtx (of_nat (length (Data (txCtx ! pd))))
              then Rent_MinimumBalance execCtx (of_nat (length (Data (txCtx ! pd)))) else 1)"
    using f pdl by simp
  then have r: "?r = max 1 (Rent_MinimumBalance execCtx (of_nat (length (Data (txCtx ! pd)))))"
    by (simp add: if_less_max)
  have sum: "unat (SaturatingAddU64 ?P ?B) = unat ?P + unat ?B"
    using nosat by (simp add: unat_SaturatingAddU64)
  have "\<not> SaturatingAddU64 ?P ?B < ?r" using f [unfolded pdl bufl] by blast
  then have cov: "unat ?r \<le> unat ?P + unat ?B"
    using sum by (simp add: word_less_nat_alt)
  have S: "unat (SaturatingSubU64 (SaturatingAddU64 ?P ?B) ?r) = unat ?P + unat ?B - unat ?r"
    by (simp add: unat_SaturatingSubU64 sum)
  note g = UpgradeableLoaderUpgrade_writes_lamports [OF w pl bl sp,
      unfolded pdl bufl bL, OF UpgradeableLoaderUpgrade_programData_not_buffer [OF c s, unfolded pdl bufl] d]
  have b0: "Lamports (t' ! buf) = 0" and p0: "Lamports (t' ! pd) = ?r" using g by simp_all
  have s0: "unat (Lamports (t' ! spill)) = unat (Lamports (txCtx ! spill)) + (unat ?P + unat ?B - unat ?r)"
  proof -
    have "unat (Lamports (txCtx ! spill)) + unat (SaturatingSubU64 (SaturatingAddU64 ?P ?B) ?r) < 2 ^ 64"
      using g by simp
    then have "unat (Lamports (txCtx ! spill) + SaturatingSubU64 (SaturatingAddU64 ?P ?B) ?r)
      = unat (Lamports (txCtx ! spill)) + unat (SaturatingSubU64 (SaturatingAddU64 ?P ?B) ?r)"
      by (simp add: unat_plus_if_size word_size)
    then show ?thesis using g S by simp
  qed
  show ?thesis using b0 p0 r cov s0 by simp
qed

text \<open>
  Program data with 5 lamports, buffer with 3, spill with none, minimum balance 4: the
  program data keeps 4, the spill receives 4, the buffer is left with none.
\<close>

theorem C6_Upgrade_lamports_witness:
  "UpgradeableLoaderUpgrade (upgradeExecCtx 42 4) upgradeInstrCtx
     (upgradeTx (programDataBytes 41 [0xDE, 0xAD, 0xBE, 0xEF]) 5 (bufferBytes [1, 2]) 3 0)
   = (None, upgradeTx (programDataBytes 41 [1, 2, 0, 0]) 4 (bufferBytes []) 0 4)
   \<and> Lamports (upgradeTx (programDataBytes 41 [1, 2, 0, 0]) 4 (bufferBytes []) 0 4 ! 2) = 0
   \<and> Lamports (upgradeTx (programDataBytes 41 [1, 2, 0, 0]) 4 (bufferBytes []) 0 4 ! 0) = max 1 4
   \<and> unat (Lamports (upgradeTx (programDataBytes 41 [1, 2, 0, 0]) 4 (bufferBytes []) 0 4 ! 0))
      + unat (Lamports (upgradeTx (programDataBytes 41 [1, 2, 0, 0]) 4 (bufferBytes []) 0 4 ! 3))
      + unat (Lamports (upgradeTx (programDataBytes 41 [1, 2, 0, 0]) 4 (bufferBytes []) 0 4 ! 2))
      = 5 + 0 + 3"
proof -
  let ?e = "upgradeExecCtx 42 4"
  let ?t = "upgradeTx (programDataBytes 41 [0xDE, 0xAD, 0xBE, 0xEF]) 5 (bufferBytes [1, 2]) 3 0"
  let ?t' = "upgradeTx (programDataBytes 41 [1, 2, 0, 0]) 4 (bufferBytes []) 0 4"
  have ok: "UpgradeableLoaderUpgrade ?e upgradeInstrCtx ?t = (None, ?t')"
    by (simp add: UpgradeableLoaderUpgrade_def UpgradeableLoaderUpgrade_checks_def
        UpgradeableLoaderUpgrade_programData_state_def UpgradeableLoaderUpgrade_writes_def
        handler_defs codec_defs zeroState_def upgrade_example_defs Let_def replicate_2)
  have h1: "IndexInTransaction (InstructionAccounts upgradeInstrCtx ! 0) = 0"
    and h2: "IndexInTransaction (InstructionAccounts upgradeInstrCtx ! 2) = 2"
    and h3: "IndexInTransaction (InstructionAccounts upgradeInstrCtx ! 3) = 3"
    by (simp_all add: upgrade_example_defs)
  have h4: "(3 :: nat) \<noteq> 0" "(3 :: nat) \<noteq> 2" by simp_all
  have h5: "unat (Lamports (?t ! 0)) + unat (Lamports (?t ! 2)) < 2 ^ 64"
    by (simp add: upgrade_example_defs)
  show ?thesis
    using C6_Upgrade_lamports [OF ok h1 h2 h3 h4 h5] ok
    by (simp add: upgrade_example_defs)
qed

text \<open>
  Why the spill has to be a third account: when instruction account 3 names the buffer
  account, the lamports that line 854 adds to it are overwritten by line 859, and of the
  8 lamports of program data and buffer 1 is left.
\<close>

lemma Upgrade_spill_is_buffer_example:
  "UpgradeableLoaderUpgrade (upgradeExecCtx 42 1)
     (upgradeInstrCtx\<lparr>InstructionAccounts :=
        (InstructionAccounts upgradeInstrCtx)[3 := mkInstrAccount 2 False]\<rparr>)
     (upgradeTx (programDataBytes 41 [0xDE, 0xAD, 0xBE, 0xEF]) 5 (bufferBytes [1, 2]) 3 0)
   = (None, upgradeTx (programDataBytes 41 [1, 2, 0, 0]) 1 (bufferBytes []) 0 0)"
  by (simp add: UpgradeableLoaderUpgrade_def UpgradeableLoaderUpgrade_checks_def
      UpgradeableLoaderUpgrade_programData_state_def UpgradeableLoaderUpgrade_writes_def
      handler_defs codec_defs zeroState_def upgrade_example_defs Let_def replicate_2)

text \<open>
  C8: an Upgrade call that passes every check before the program data's state check,
  whose program data account (instruction account 0) holds a ProgramData state with
  the slot of the clock, fails with InvalidArgument and changes no account.
\<close>

theorem C8_Upgrade_same_slot:
  assumes "UpgradeableLoaderUpgrade_checks execCtx instrCtx txCtx = Inr l"
    and "unmarshalUpgradeableLoaderState
           (Data (txCtx ! IndexInTransaction (InstructionAccounts instrCtx ! 0))) = Inr st"
    and "Type st = UpgradeableLoaderStateTypeProgramData"
    and "Clock_Slot execCtx = Slot (ProgramData st)"
  shows "UpgradeableLoaderUpgrade execCtx instrCtx txCtx = (Some (Err InstrErrInvalidArgument), txCtx)"
proof -
  have "programData l = IndexInTransaction (InstructionAccounts instrCtx ! 0)"
    using UpgradeableLoaderUpgrade_checks_Inr [OF assms(1)] by simp
  then show ?thesis
    using assms
    by (simp add: UpgradeableLoaderUpgrade_def UpgradeableLoaderUpgrade_programData_state_def)
qed

text \<open>The program data was deployed in slot 42 and the clock is at slot 42.\<close>

theorem C8_Upgrade_same_slot_witness:
  "UpgradeableLoaderUpgrade (upgradeExecCtx 42 1) upgradeInstrCtx
     (upgradeTx (programDataBytes 42 [0xDE, 0xAD, 0xBE, 0xEF]) 5 (bufferBytes [1, 2]) 3 0)
   = (Some (Err InstrErrInvalidArgument),
      upgradeTx (programDataBytes 42 [0xDE, 0xAD, 0xBE, 0xEF]) 5 (bufferBytes [1, 2]) 3 0)"
proof -
  let ?e = "upgradeExecCtx 42 1"
  let ?t = "upgradeTx (programDataBytes 42 [0xDE, 0xAD, 0xBE, 0xEF]) 5 (bufferBytes [1, 2]) 3 0"
  let ?st = "zeroState\<lparr>Type := 3,
               ProgramData := \<lparr>Slot = 42, UpgradeAuthorityAddress = Some (keyOf 7)\<rparr>\<rparr>"
  have h1: "UpgradeableLoaderUpgrade_checks ?e upgradeInstrCtx ?t
     = Inr \<lparr>authorityKey = keyOf 7, buffer = 2, bufferLamports = 3, bufferDataLen = 2,
            programData = 0, programDataBalanceRequired = 1\<rparr>"
    by (simp add: UpgradeableLoaderUpgrade_checks_def handler_defs codec_defs zeroState_def
        upgrade_example_defs Let_def)
  have h2: "unmarshalUpgradeableLoaderState
              (Data (?t ! IndexInTransaction (InstructionAccounts upgradeInstrCtx ! 0))) = Inr ?st"
    using unmarshal_ProgramData_Some [of "keyOf 7" 42 "[0xDE, 0xAD, 0xBE, 0xEF]"]
    by (simp add: upgrade_example_defs)
  have h3: "Type ?st = UpgradeableLoaderStateTypeProgramData" by (simp add: StateType_defs)
  have h4: "Clock_Slot ?e = Slot (ProgramData ?st)" by (simp add: upgradeExecCtx_def)
  show ?thesis by (rule C8_Upgrade_same_slot [OF h1 h2 h3 h4])
qed

text \<open>
  C2: after a successful Upgrade the program data account decodes to a ProgramData
  state whose slot is the clock's and whose authority is the key of instruction
  account 6. The source builds the new state without a tag and the encoder writes
  nothing for it: with the program data deployed in slot 41 and the clock at slot 42,
  the Upgrade succeeds and the account still decodes to slot 41.
\<close>

theorem C2_Upgrade_keeps_old_slot:
  "UpgradeableLoaderUpgrade (upgradeExecCtx 42 1) upgradeInstrCtx
     (upgradeTx (programDataBytes 41 [0xDE, 0xAD, 0xBE, 0xEF]) 5 (bufferBytes [1, 2]) 3 0)
   = (None, upgradeTx (programDataBytes 41 [1, 2, 0, 0]) 1 (bufferBytes []) 0 7)
   \<and> unmarshalUpgradeableLoaderState
        (Data (upgradeTx (programDataBytes 41 [1, 2, 0, 0]) 1 (bufferBytes []) 0 7 ! 0))
      = Inr (zeroState\<lparr>Type := 3,
               ProgramData := \<lparr>Slot = 41, UpgradeAuthorityAddress = Some (keyOf 7)\<rparr>\<rparr>)
   \<and> Clock_Slot (upgradeExecCtx 42 1) = 42"
  by (simp add: UpgradeableLoaderUpgrade_def UpgradeableLoaderUpgrade_checks_def
      UpgradeableLoaderUpgrade_programData_state_def UpgradeableLoaderUpgrade_writes_def
      handler_defs codec_defs zeroState_def upgrade_example_defs Let_def replicate_2)

text \<open>
  C4: an Upgrade call whose buffer account does not decode returns an error. The
  source does not look at the error of the buffer's decoding and reads the tag through
  the nil pointer: on a buffer account of the four bytes \<open>09 00 00 00\<close>, an unknown
  tag, and on an empty one, the handler panics.
\<close>

theorem C4_Upgrade_panics_on_undecodable_buffer:
  "unmarshalUpgradeableLoaderState [9, 0, 0, 0] = Inl (Err InstrErrInvalidAccountData)
   \<and> UpgradeableLoaderUpgrade (upgradeExecCtx 42 1) upgradeInstrCtx
        (upgradeTx (programDataBytes 41 [0xDE, 0xAD, 0xBE, 0xEF]) 5 [9, 0, 0, 0] 3 0)
      = (Some Panic, upgradeTx (programDataBytes 41 [0xDE, 0xAD, 0xBE, 0xEF]) 5 [9, 0, 0, 0] 3 0)
   \<and> UpgradeableLoaderUpgrade (upgradeExecCtx 42 1) upgradeInstrCtx
        (upgradeTx (programDataBytes 41 [0xDE, 0xAD, 0xBE, 0xEF]) 5 [] 3 0)
      = (Some Panic, upgradeTx (programDataBytes 41 [0xDE, 0xAD, 0xBE, 0xEF]) 5 [] 3 0)"
  by (simp add: UpgradeableLoaderUpgrade_def UpgradeableLoaderUpgrade_checks_def
      handler_defs codec_defs zeroState_def upgrade_example_defs Let_def)

subsection \<open>Upgrade: the header of the program data\<close>

lemma dstEnd_ge:
  "45 \<le> unat (SaturatingAddU64 (of_nat upgradeableLoaderSizeOfProgramDataMetaData) x)"
  by (simp add: unat_SaturatingAddU64 upgradeableLoaderSizeOfProgramDataMetaData_def)

lemma filled_header:
  assumes "45 \<le> length d" and "45 \<le> e"
    and "copy_into d 45 e src = Some copied"
  shows "take 45 (take e copied @ replicate (length copied - e) 0) = take 45 d
       \<and> length (take e copied @ replicate (length copied - e) 0) = length d"
  using assms by (auto simp: copy_into_def Let_def min_def split: if_splits)

lemma UpgradeableLoaderUpgrade_writes_header:
  assumes w: "UpgradeableLoaderUpgrade_writes execCtx instrCtx l txCtx = (None, t')"
    and pl: "programData l < length txCtx"
    and ne: "programData l \<noteq> buffer l"
    and len: "45 \<le> length (Data (txCtx ! programData l))"
  shows "take 45 (Data (t' ! programData l)) = take 45 (Data (txCtx ! programData l))
       \<and> length (Data (t' ! programData l)) = length (Data (txCtx ! programData l))"
proof -
  let ?e = "unat (SaturatingAddU64 (of_nat upgradeableLoaderSizeOfProgramDataMetaData) (bufferDataLen l))"
  let ?d = "Data (txCtx ! programData l)"
  from w obtain copied where c: "copy_into ?d 45 ?e
      (drop 37 (Data (txCtx ! buffer l))) = Some copied"
    and d': "Data (t' ! programData l) = take ?e copied @ replicate (length copied - ?e) 0"
    using pl ne unfolding UpgradeableLoaderUpgrade_writes_def
    by (auto simp: setUpgradeableLoaderAccountState_zero_tag thenS_None_iff bindS_None_iff
      Borrow_Inr_iff Let_def CheckedAddLamports_def SetLamports_def SetDataLength_def
      upgradeableLoaderSizeOfProgramDataMetaData_def upgradeableLoaderSizeOfBufferMetaData_def
      nth_list_update
      split: if_splits option.splits)
  show ?thesis unfolding d' by (rule filled_header [OF len dstEnd_ge c])
qed

text \<open>
  The same on every input: after a successful Upgrade the program data account decodes
  to the state it decoded to before, whose slot is not the clock's.
\<close>

lemma UpgradeableLoaderUpgrade_keeps_slot:
  assumes ok: "UpgradeableLoaderUpgrade execCtx instrCtx txCtx = (None, t')"
  shows "\<exists>st. unmarshalUpgradeableLoaderState
                (Data (t' ! IndexInTransaction (InstructionAccounts instrCtx ! 0))) = Inr st
             \<and> unmarshalUpgradeableLoaderState
                (Data (txCtx ! IndexInTransaction (InstructionAccounts instrCtx ! 0))) = Inr st
             \<and> Type st = UpgradeableLoaderStateTypeProgramData
             \<and> Slot (ProgramData st) \<noteq> Clock_Slot execCtx"
proof -
  from ok obtain l u where c: "UpgradeableLoaderUpgrade_checks execCtx instrCtx txCtx = Inr l"
    and s: "UpgradeableLoaderUpgrade_programData_state execCtx instrCtx l txCtx = Inr u"
    and w: "UpgradeableLoaderUpgrade_writes execCtx instrCtx l txCtx = (None, t')"
    by (auto simp: UpgradeableLoaderUpgrade_def bindS_None_iff)
  note f = UpgradeableLoaderUpgrade_checks_Inr [OF c]
  have pdl: "programData l = IndexInTransaction (InstructionAccounts instrCtx ! 0)"
    and pl: "programData l < length txCtx" using f by simp_all
  from UpgradeableLoaderUpgrade_programData_state_Inr [OF s] obtain st
    where st: "unmarshalUpgradeableLoaderState (Data (txCtx ! programData l)) = Inr st"
      and ty: "Type st = UpgradeableLoaderStateTypeProgramData"
      and sl: "Slot (ProgramData st) \<noteq> Clock_Slot execCtx"
      and au: "UpgradeAuthorityAddress (ProgramData st) = Some (authorityKey l)" by blast
  let ?d = "Data (txCtx ! programData l)" and ?d' = "Data (t' ! programData l)"
  from unmarshal_Inr_layout [OF st] ty au have len: "45 \<le> length ?d"
    by (simp add: layoutSize_def StateType_defs)
  note h = UpgradeableLoaderUpgrade_writes_header
    [OF w pl UpgradeableLoaderUpgrade_programData_not_buffer [OF c s] len]
  have e1: "?d' = take 45 ?d @ drop 45 ?d'"
    using append_take_drop_id [of 45 ?d'] h by metis
  have e2: "take 45 ?d @ drop 45 ?d = ?d" by simp
  have "unmarshalUpgradeableLoaderState ?d'
      = unmarshalUpgradeableLoaderState (take 45 ?d @ drop 45 ?d')"
    by (rule arg_cong [OF e1])
  also have "\<dots> = unmarshalUpgradeableLoaderState (take 45 ?d @ drop 45 ?d)"
    by (rule unmarshal_header_only) (use len in simp)
  also have "\<dots> = unmarshalUpgradeableLoaderState ?d"
    by (rule arg_cong [OF e2])
  finally have "unmarshalUpgradeableLoaderState ?d' = unmarshalUpgradeableLoaderState ?d" .
  with st ty sl show ?thesis unfolding pdl by auto
qed

subsection \<open>DeployWithMaxDataLen\<close>

text \<open>
  The eight instruction accounts of DeployWithMaxDataLen in the order of section 4.5,
  at the positions 0 to 7 of the transaction, and the loader at position 8. The program
  account is Uninitialized, of 36 bytes, and rent exempt; the buffer carries the given
  payload under the authority \<open>keyOf 7\<close>, who signs.
\<close>

definition deployTx :: "byte list \<Rightarrow> TransactionCtx" where
  "deployTx bufPayload =
     [mkAccount (keyOf 12) 1000 [] False,
      mkAccount (keyOf 1) 0 [] False,
      mkAccount (keyOf 2) 10 ([0, 0, 0, 0] @ replicate 32 0) False,
      mkAccount (keyOf 3) 3 (bufferBytes bufPayload) False,
      mkAccount (keyOf 10) 1 [] False,
      mkAccount (keyOf 11) 1 [] False,
      mkAccount (keyOf 0) 1 [] True,
      mkAccount (keyOf 7) 0 [] False,
      mkAccount loaderKey 1 [] True]"

definition deployInstrCtx :: InstructionCtx where
  "deployInstrCtx =
     \<lparr>ProgramAccounts = [8],
      InstructionAccounts =
        [mkInstrAccount 0 True, mkInstrAccount 1 False, mkInstrAccount 2 False,
         mkInstrAccount 3 False, mkInstrAccount 4 False, mkInstrAccount 5 False,
         mkInstrAccount 6 False, mkInstrAccount 7 True],
      InstrData = [2, 0, 0, 0, 99, 0, 0, 0, 0, 0, 0, 0]\<rparr>"

text \<open>
  C3: DeployWithMaxDataLen applies the Buffer-tag and authority checks to the state of
  the buffer account, and a buffer of 100 payload bytes with max_data_len = 99 fails
  with AccountDataTooSmall. The source decodes the state it checks from the program
  account, which it has just required to be Uninitialized: the call fails with
  InvalidArgument before the length is looked at.
\<close>

theorem C3_Deploy_checks_program_instead_of_buffer:
  "unmarshalUpgradeableLoaderState (Data (deployTx (replicate 100 0xAB) ! 3))
     = Inr (zeroState\<lparr>Type := 1, Buffer := \<lparr>AuthorityAddress = Some (keyOf 7)\<rparr>\<rparr>)
   \<and> length (Data (deployTx (replicate 100 0xAB) ! 3)) - upgradeableLoaderSizeOfBufferMetaData = 100
   \<and> UpgradeableLoaderDeployWithMaxDataLen (upgradeExecCtx 42 1) deployInstrCtx
        \<lparr>MaxDataLen = 99\<rparr> (deployTx (replicate 100 0xAB))
      = (Some (Err InstrErrInvalidArgument), deployTx (replicate 100 0xAB))"
  by (simp add: UpgradeableLoaderDeployWithMaxDataLen_def handler_defs codec_defs zeroState_def
      deployTx_def deployInstrCtx_def upgrade_example_defs Let_def)

text \<open>No call of DeployWithMaxDataLen succeeds, for the same reason.\<close>

lemma UpgradeableLoaderDeployWithMaxDataLen_never_succeeds:
  "UpgradeableLoaderDeployWithMaxDataLen execCtx instrCtx deploy txCtx \<noteq> (None, t')"
proof
  assume "UpgradeableLoaderDeployWithMaxDataLen execCtx instrCtx deploy txCtx = (None, t')"
  then obtain d st where "unmarshalUpgradeableLoaderState d = Inr st"
    and "\<not> Type st \<noteq> UpgradeableLoaderStateTypeUninitialized"
    and "\<not> Type st \<noteq> UpgradeableLoaderStateTypeBuffer"
    unfolding UpgradeableLoaderDeployWithMaxDataLen_def
    by (auto simp: bindS_None_iff Let_def split: if_splits)
  then show False by (simp add: StateType_defs)
qed

subsection \<open>The dispatcher\<close>

text \<open>
  C9: when the instruction data begins with a little-endian u32 opcode outside
  0, 1, 2, 3 (the reserved opcodes 4 to 7 among them), the dispatcher returns
  InvalidInstructionData and changes no account; it does the same when the payload of
  opcode 1 or of opcode 2 does not decode.
\<close>

theorem C9_dispatch_invalid_instruction_data:
  "(\<forall>opcode rest.
       ReadUint32 (InstrData instrCtx) = Some (opcode, rest) \<and> opcode \<notin> {0, 1, 2, 3}
       \<longrightarrow> ProcessUpgradeableLoaderInstruction execCtx instrCtx txCtx
             = (Some (Err InstrErrInvalidInstructionData), txCtx))
   \<and> (\<forall>rest.
       ReadUint32 (InstrData instrCtx) = Some (1, rest)
       \<and> UpgradeableLoaderInstrWrite_UnmarshalWithDecoder rest = None
       \<longrightarrow> ProcessUpgradeableLoaderInstruction execCtx instrCtx txCtx
             = (Some (Err InstrErrInvalidInstructionData), txCtx))
   \<and> (\<forall>rest.
       ReadUint32 (InstrData instrCtx) = Some (2, rest)
       \<and> UpgradeableLoaderInstrDeployWithMaxDataLen_UnmarshalWithDecoder rest = None
       \<longrightarrow> ProcessUpgradeableLoaderInstruction execCtx instrCtx txCtx
             = (Some (Err InstrErrInvalidInstructionData), txCtx))"
  by (simp add: ProcessUpgradeableLoaderInstruction_def
      UpgradeableLoaderInstrTypeInitializeBuffer_def UpgradeableLoaderInstrTypeWrite_def
      UpgradeableLoaderInstrTypeDeployWithMaxDataLen_def UpgradeableLoaderInstrTypeUpgrade_def)

text \<open>
  The opcodes 4, 5, 6 and 7 on the accounts of a valid Upgrade; a Write with 2 bytes
  of the 4 of its offset; a DeployWithMaxDataLen with 3 bytes of the 8 of
  max_data_len.
\<close>

theorem C9_dispatch_invalid_instruction_data_witness:
  "ProcessUpgradeableLoaderInstruction (upgradeExecCtx 42 1)
        (upgradeInstrCtx\<lparr>InstrData := [4, 0, 0, 0, 9, 9, 9, 9]\<rparr>)
        (upgradeTx (programDataBytes 41 [0xDE, 0xAD, 0xBE, 0xEF]) 5 (bufferBytes [1, 2]) 3 0)
      = (Some (Err InstrErrInvalidInstructionData),
         upgradeTx (programDataBytes 41 [0xDE, 0xAD, 0xBE, 0xEF]) 5 (bufferBytes [1, 2]) 3 0)
   \<and> ProcessUpgradeableLoaderInstruction (upgradeExecCtx 42 1)
        (upgradeInstrCtx\<lparr>InstrData := [5, 0, 0, 0, 9, 9, 9, 9]\<rparr>)
        (upgradeTx (programDataBytes 41 [0xDE, 0xAD, 0xBE, 0xEF]) 5 (bufferBytes [1, 2]) 3 0)
      = (Some (Err InstrErrInvalidInstructionData),
         upgradeTx (programDataBytes 41 [0xDE, 0xAD, 0xBE, 0xEF]) 5 (bufferBytes [1, 2]) 3 0)
   \<and> ProcessUpgradeableLoaderInstruction (upgradeExecCtx 42 1)
        (upgradeInstrCtx\<lparr>InstrData := [6, 0, 0, 0, 9, 9, 9, 9]\<rparr>)
        (upgradeTx (programDataBytes 41 [0xDE, 0xAD, 0xBE, 0xEF]) 5 (bufferBytes [1, 2]) 3 0)
      = (Some (Err InstrErrInvalidInstructionData),
         upgradeTx (programDataBytes 41 [0xDE, 0xAD, 0xBE, 0xEF]) 5 (bufferBytes [1, 2]) 3 0)
   \<and> ProcessUpgradeableLoaderInstruction (upgradeExecCtx 42 1)
        (upgradeInstrCtx\<lparr>InstrData := [7, 0, 0, 0, 9, 9, 9, 9]\<rparr>)
        (upgradeTx (programDataBytes 41 [0xDE, 0xAD, 0xBE, 0xEF]) 5 (bufferBytes [1, 2]) 3 0)
      = (Some (Err InstrErrInvalidInstructionData),
         upgradeTx (programDataBytes 41 [0xDE, 0xAD, 0xBE, 0xEF]) 5 (bufferBytes [1, 2]) 3 0)
   \<and> ProcessUpgradeableLoaderInstruction (upgradeExecCtx 42 1)
        (bufferInstrCtx True [1, 0, 0, 0, 0, 0])
        (bufferTx (bufferBytes [0, 0, 0, 0]))
      = (Some (Err InstrErrInvalidInstructionData), bufferTx (bufferBytes [0, 0, 0, 0]))
   \<and> ProcessUpgradeableLoaderInstruction (upgradeExecCtx 42 1)
        (deployInstrCtx\<lparr>InstrData := [2, 0, 0, 0, 99, 0, 0]\<rparr>)
        (deployTx (replicate 100 0xAB))
      = (Some (Err InstrErrInvalidInstructionData), deployTx (replicate 100 0xAB))"
proof -
  let ?e = "upgradeExecCtx 42 1"
  let ?t = "upgradeTx (programDataBytes 41 [0xDE, 0xAD, 0xBE, 0xEF]) 5 (bufferBytes [1, 2]) 3 0"
  have a: "ProcessUpgradeableLoaderInstruction ?e
        (upgradeInstrCtx\<lparr>InstrData := [opcode, 0, 0, 0, 9, 9, 9, 9]\<rparr>) ?t
      = (Some (Err InstrErrInvalidInstructionData), ?t)" if "opcode \<in> {4, 5, 6, 7}" for opcode
  proof -
    have "ReadUint32 (InstrData (upgradeInstrCtx\<lparr>InstrData := [opcode, 0, 0, 0, 9, 9, 9, 9]\<rparr>))
            = Some (ucast opcode, [9, 9, 9, 9])"
      by (simp add: ReadUint32_def ReadBytes_def le_word_def)
    moreover have "(ucast opcode :: u32) \<notin> {0, 1, 2, 3}"
      using that by auto
    ultimately show ?thesis
      using C9_dispatch_invalid_instruction_data
        [of "upgradeInstrCtx\<lparr>InstrData := [opcode, 0, 0, 0, 9, 9, 9, 9]\<rparr>" ?e ?t]
      by blast
  qed
  have b: "ProcessUpgradeableLoaderInstruction ?e
        (bufferInstrCtx True [1, 0, 0, 0, 0, 0])
        (bufferTx (bufferBytes [0, 0, 0, 0]))
      = (Some (Err InstrErrInvalidInstructionData), bufferTx (bufferBytes [0, 0, 0, 0]))"
  proof -
    have "ReadUint32 (InstrData
            (bufferInstrCtx True [1, 0, 0, 0, 0, 0]))
            = Some (1, [0, 0])"
      by (simp add: ReadUint32_def ReadBytes_def le_word_def bufferInstrCtx_def)
    moreover have "UpgradeableLoaderInstrWrite_UnmarshalWithDecoder [0, 0] = None"
      by (simp add: UpgradeableLoaderInstrWrite_UnmarshalWithDecoder_def ReadByteSlice_def
          ReadUint32_def ReadUint64_def ReadBytes_def le_word_def)
    ultimately show ?thesis
      using C9_dispatch_invalid_instruction_data
        [of "bufferInstrCtx True [1, 0, 0, 0, 0, 0]"
            ?e "bufferTx (bufferBytes [0, 0, 0, 0])"]
      by blast
  qed
  have c: "ProcessUpgradeableLoaderInstruction ?e
        (deployInstrCtx\<lparr>InstrData := [2, 0, 0, 0, 99, 0, 0]\<rparr>) (deployTx (replicate 100 0xAB))
      = (Some (Err InstrErrInvalidInstructionData), deployTx (replicate 100 0xAB))"
  proof -
    have "ReadUint32 (InstrData (deployInstrCtx\<lparr>InstrData := [2, 0, 0, 0, 99, 0, 0]\<rparr>))
            = Some (2, [99, 0, 0])"
      by (simp add: ReadUint32_def ReadBytes_def le_word_def)
    moreover have "UpgradeableLoaderInstrDeployWithMaxDataLen_UnmarshalWithDecoder [99, 0, 0] = None"
      by (simp add: UpgradeableLoaderInstrDeployWithMaxDataLen_UnmarshalWithDecoder_def
          ReadUint64_def ReadBytes_def)
    ultimately show ?thesis
      using C9_dispatch_invalid_instruction_data
        [of "deployInstrCtx\<lparr>InstrData := [2, 0, 0, 0, 99, 0, 0]\<rparr>" ?e "deployTx (replicate 100 0xAB)"]
      by blast
  qed
  show ?thesis using a [of 4] a [of 5] a [of 6] a [of 7] b c by simp
qed

end
